theory Spec2Isabelle
  imports Main "HOL-Library.Code_Target_Nat"
begin

section \<open>Strings\<close>

text \<open>
  A Python \<open>str\<close> is a sequence of Unicode code points, so a string is a list of
  natural numbers. The message template of \<open>send_telegram_alert\<close> contains code points
  far above one byte (U+1F6A8 and others), and positions and cities are written in any
  alphabet, which is why the 8-bit \<open>char\<close> is not used.
  \<open>lit\<close> turns an ASCII literal into such a string.
\<close>

type_synonym str = "nat list"

definition lit :: "string \<Rightarrow> str" where
  "lit cs = map of_char cs"

definition is_ascii :: "str \<Rightarrow> bool" where
  "is_ascii s = list_all (\<lambda>c. c < 128) s"

text \<open>
  \<open>str.lower\<close> and \<open>str.upper\<close> are library functions driven by the Unicode
  character database. The tables below are those of Unicode 14.0.0, the version
  CPython 3.11 carries, for every code point up to U+10FFFF.

  A run \<open>(lo, hi, step, target)\<close> maps the code points \<open>lo, lo + step, ..., hi\<close> to
  \<open>target, target + step, ...\<close>; the special tables list the code points whose image
  is not a single code point. A code point in neither table is its own image.
\<close>

definition lower_runs :: "(nat \<times> nat \<times> nat \<times> nat) list" where
  "lower_runs =
     [(0x41, 0x5A, 1, 0x61), (0xC0, 0xD6, 1, 0xE0), (0xD8, 0xDE, 1, 0xF8),
      (0x100, 0x12E, 2, 0x101), (0x132, 0x136, 2, 0x133), (0x139, 0x147, 2, 0x13A),
      (0x14A, 0x176, 2, 0x14B), (0x178, 0x178, 1, 0xFF), (0x179, 0x17D, 2, 0x17A),
      (0x181, 0x181, 1, 0x253), (0x182, 0x184, 2, 0x183), (0x186, 0x186, 1, 0x254),
      (0x187, 0x187, 1, 0x188), (0x189, 0x18A, 1, 0x256), (0x18B, 0x18B, 1, 0x18C),
      (0x18E, 0x18E, 1, 0x1DD), (0x18F, 0x18F, 1, 0x259), (0x190, 0x190, 1, 0x25B),
      (0x191, 0x191, 1, 0x192), (0x193, 0x193, 1, 0x260), (0x194, 0x194, 1, 0x263),
      (0x196, 0x196, 1, 0x269), (0x197, 0x197, 1, 0x268), (0x198, 0x198, 1, 0x199),
      (0x19C, 0x19C, 1, 0x26F), (0x19D, 0x19D, 1, 0x272), (0x19F, 0x19F, 1, 0x275),
      (0x1A0, 0x1A4, 2, 0x1A1), (0x1A6, 0x1A6, 1, 0x280), (0x1A7, 0x1A7, 1, 0x1A8),
      (0x1A9, 0x1A9, 1, 0x283), (0x1AC, 0x1AC, 1, 0x1AD), (0x1AE, 0x1AE, 1, 0x288),
      (0x1AF, 0x1AF, 1, 0x1B0), (0x1B1, 0x1B2, 1, 0x28A), (0x1B3, 0x1B5, 2, 0x1B4),
      (0x1B7, 0x1B7, 1, 0x292), (0x1B8, 0x1B8, 1, 0x1B9), (0x1BC, 0x1BC, 1, 0x1BD),
      (0x1C4, 0x1C4, 1, 0x1C6), (0x1C5, 0x1C5, 1, 0x1C6), (0x1C7, 0x1C7, 1, 0x1C9),
      (0x1C8, 0x1C8, 1, 0x1C9), (0x1CA, 0x1CA, 1, 0x1CC), (0x1CB, 0x1DB, 2, 0x1CC),
      (0x1DE, 0x1EE, 2, 0x1DF), (0x1F1, 0x1F1, 1, 0x1F3), (0x1F2, 0x1F4, 2, 0x1F3),
      (0x1F6, 0x1F6, 1, 0x195), (0x1F7, 0x1F7, 1, 0x1BF), (0x1F8, 0x21E, 2, 0x1F9),
      (0x220, 0x220, 1, 0x19E), (0x222, 0x232, 2, 0x223), (0x23A, 0x23A, 1, 0x2C65),
      (0x23B, 0x23B, 1, 0x23C), (0x23D, 0x23D, 1, 0x19A), (0x23E, 0x23E, 1, 0x2C66),
      (0x241, 0x241, 1, 0x242), (0x243, 0x243, 1, 0x180), (0x244, 0x244, 1, 0x289),
      (0x245, 0x245, 1, 0x28C), (0x246, 0x24E, 2, 0x247), (0x370, 0x372, 2, 0x371),
      (0x376, 0x376, 1, 0x377), (0x37F, 0x37F, 1, 0x3F3), (0x386, 0x386, 1, 0x3AC),
      (0x388, 0x38A, 1, 0x3AD), (0x38C, 0x38C, 1, 0x3CC), (0x38E, 0x38F, 1, 0x3CD),
      (0x391, 0x3A1, 1, 0x3B1), (0x3A3, 0x3AB, 1, 0x3C3), (0x3CF, 0x3CF, 1, 0x3D7),
      (0x3D8, 0x3EE, 2, 0x3D9), (0x3F4, 0x3F4, 1, 0x3B8), (0x3F7, 0x3F7, 1, 0x3F8),
      (0x3F9, 0x3F9, 1, 0x3F2), (0x3FA, 0x3FA, 1, 0x3FB), (0x3FD, 0x3FF, 1, 0x37B),
      (0x400, 0x40F, 1, 0x450), (0x410, 0x42F, 1, 0x430), (0x460, 0x480, 2, 0x461),
      (0x48A, 0x4BE, 2, 0x48B), (0x4C0, 0x4C0, 1, 0x4CF), (0x4C1, 0x4CD, 2, 0x4C2),
      (0x4D0, 0x52E, 2, 0x4D1), (0x531, 0x556, 1, 0x561), (0x10A0, 0x10C5, 1, 0x2D00),
      (0x10C7, 0x10C7, 1, 0x2D27), (0x10CD, 0x10CD, 1, 0x2D2D), (0x13A0, 0x13EF, 1, 0xAB70),
      (0x13F0, 0x13F5, 1, 0x13F8), (0x1C90, 0x1CBA, 1, 0x10D0), (0x1CBD, 0x1CBF, 1, 0x10FD),
      (0x1E00, 0x1E94, 2, 0x1E01), (0x1E9E, 0x1E9E, 1, 0xDF), (0x1EA0, 0x1EFE, 2, 0x1EA1),
      (0x1F08, 0x1F0F, 1, 0x1F00), (0x1F18, 0x1F1D, 1, 0x1F10), (0x1F28, 0x1F2F, 1, 0x1F20),
      (0x1F38, 0x1F3F, 1, 0x1F30), (0x1F48, 0x1F4D, 1, 0x1F40), (0x1F59, 0x1F5F, 2, 0x1F51),
      (0x1F68, 0x1F6F, 1, 0x1F60), (0x1F88, 0x1F8F, 1, 0x1F80), (0x1F98, 0x1F9F, 1, 0x1F90),
      (0x1FA8, 0x1FAF, 1, 0x1FA0), (0x1FB8, 0x1FB9, 1, 0x1FB0), (0x1FBA, 0x1FBB, 1, 0x1F70),
      (0x1FBC, 0x1FBC, 1, 0x1FB3), (0x1FC8, 0x1FCB, 1, 0x1F72), (0x1FCC, 0x1FCC, 1, 0x1FC3),
      (0x1FD8, 0x1FD9, 1, 0x1FD0), (0x1FDA, 0x1FDB, 1, 0x1F76), (0x1FE8, 0x1FE9, 1, 0x1FE0),
      (0x1FEA, 0x1FEB, 1, 0x1F7A), (0x1FEC, 0x1FEC, 1, 0x1FE5), (0x1FF8, 0x1FF9, 1, 0x1F78),
      (0x1FFA, 0x1FFB, 1, 0x1F7C), (0x1FFC, 0x1FFC, 1, 0x1FF3), (0x2126, 0x2126, 1, 0x3C9),
      (0x212A, 0x212A, 1, 0x6B), (0x212B, 0x212B, 1, 0xE5), (0x2132, 0x2132, 1, 0x214E),
      (0x2160, 0x216F, 1, 0x2170), (0x2183, 0x2183, 1, 0x2184), (0x24B6, 0x24CF, 1, 0x24D0),
      (0x2C00, 0x2C2F, 1, 0x2C30), (0x2C60, 0x2C60, 1, 0x2C61), (0x2C62, 0x2C62, 1, 0x26B),
      (0x2C63, 0x2C63, 1, 0x1D7D), (0x2C64, 0x2C64, 1, 0x27D), (0x2C67, 0x2C6B, 2, 0x2C68),
      (0x2C6D, 0x2C6D, 1, 0x251), (0x2C6E, 0x2C6E, 1, 0x271), (0x2C6F, 0x2C6F, 1, 0x250),
      (0x2C70, 0x2C70, 1, 0x252), (0x2C72, 0x2C72, 1, 0x2C73), (0x2C75, 0x2C75, 1, 0x2C76),
      (0x2C7E, 0x2C7F, 1, 0x23F), (0x2C80, 0x2CE2, 2, 0x2C81), (0x2CEB, 0x2CED, 2, 0x2CEC),
      (0x2CF2, 0x2CF2, 1, 0x2CF3), (0xA640, 0xA66C, 2, 0xA641), (0xA680, 0xA69A, 2, 0xA681),
      (0xA722, 0xA72E, 2, 0xA723), (0xA732, 0xA76E, 2, 0xA733), (0xA779, 0xA77B, 2, 0xA77A),
      (0xA77D, 0xA77D, 1, 0x1D79), (0xA77E, 0xA786, 2, 0xA77F), (0xA78B, 0xA78B, 1, 0xA78C),
      (0xA78D, 0xA78D, 1, 0x265), (0xA790, 0xA792, 2, 0xA791), (0xA796, 0xA7A8, 2, 0xA797),
      (0xA7AA, 0xA7AA, 1, 0x266), (0xA7AB, 0xA7AB, 1, 0x25C), (0xA7AC, 0xA7AC, 1, 0x261),
      (0xA7AD, 0xA7AD, 1, 0x26C), (0xA7AE, 0xA7AE, 1, 0x26A), (0xA7B0, 0xA7B0, 1, 0x29E),
      (0xA7B1, 0xA7B1, 1, 0x287), (0xA7B2, 0xA7B2, 1, 0x29D), (0xA7B3, 0xA7B3, 1, 0xAB53),
      (0xA7B4, 0xA7C2, 2, 0xA7B5), (0xA7C4, 0xA7C4, 1, 0xA794), (0xA7C5, 0xA7C5, 1, 0x282),
      (0xA7C6, 0xA7C6, 1, 0x1D8E), (0xA7C7, 0xA7C9, 2, 0xA7C8), (0xA7D0, 0xA7D0, 1, 0xA7D1),
      (0xA7D6, 0xA7D8, 2, 0xA7D7), (0xA7F5, 0xA7F5, 1, 0xA7F6), (0xFF21, 0xFF3A, 1, 0xFF41),
      (0x10400, 0x10427, 1, 0x10428), (0x104B0, 0x104D3, 1, 0x104D8), (0x10570, 0x1057A, 1, 0x10597),
      (0x1057C, 0x1058A, 1, 0x105A3), (0x1058C, 0x10592, 1, 0x105B3), (0x10594, 0x10595, 1, 0x105BB),
      (0x10C80, 0x10CB2, 1, 0x10CC0), (0x118A0, 0x118BF, 1, 0x118C0), (0x16E40, 0x16E5F, 1, 0x16E60),
      (0x1E900, 0x1E921, 1, 0x1E922)]"

definition lower_special :: "(nat \<times> nat list) list" where
  "lower_special =
     [(0x130, [0x69, 0x307])]"

definition upper_runs :: "(nat \<times> nat \<times> nat \<times> nat) list" where
  "upper_runs =
     [(0x61, 0x7A, 1, 0x41), (0xB5, 0xB5, 1, 0x39C), (0xE0, 0xF6, 1, 0xC0),
      (0xF8, 0xFE, 1, 0xD8), (0xFF, 0xFF, 1, 0x178), (0x101, 0x12F, 2, 0x100),
      (0x131, 0x131, 1, 0x49), (0x133, 0x137, 2, 0x132), (0x13A, 0x148, 2, 0x139),
      (0x14B, 0x177, 2, 0x14A), (0x17A, 0x17E, 2, 0x179), (0x17F, 0x17F, 1, 0x53),
      (0x180, 0x180, 1, 0x243), (0x183, 0x185, 2, 0x182), (0x188, 0x188, 1, 0x187),
      (0x18C, 0x18C, 1, 0x18B), (0x192, 0x192, 1, 0x191), (0x195, 0x195, 1, 0x1F6),
      (0x199, 0x199, 1, 0x198), (0x19A, 0x19A, 1, 0x23D), (0x19E, 0x19E, 1, 0x220),
      (0x1A1, 0x1A5, 2, 0x1A0), (0x1A8, 0x1A8, 1, 0x1A7), (0x1AD, 0x1AD, 1, 0x1AC),
      (0x1B0, 0x1B0, 1, 0x1AF), (0x1B4, 0x1B6, 2, 0x1B3), (0x1B9, 0x1B9, 1, 0x1B8),
      (0x1BD, 0x1BD, 1, 0x1BC), (0x1BF, 0x1BF, 1, 0x1F7), (0x1C5, 0x1C5, 1, 0x1C4),
      (0x1C6, 0x1C6, 1, 0x1C4), (0x1C8, 0x1C8, 1, 0x1C7), (0x1C9, 0x1C9, 1, 0x1C7),
      (0x1CB, 0x1CB, 1, 0x1CA), (0x1CC, 0x1CC, 1, 0x1CA), (0x1CE, 0x1DC, 2, 0x1CD),
      (0x1DD, 0x1DD, 1, 0x18E), (0x1DF, 0x1EF, 2, 0x1DE), (0x1F2, 0x1F2, 1, 0x1F1),
      (0x1F3, 0x1F3, 1, 0x1F1), (0x1F5, 0x1F5, 1, 0x1F4), (0x1F9, 0x21F, 2, 0x1F8),
      (0x223, 0x233, 2, 0x222), (0x23C, 0x23C, 1, 0x23B), (0x23F, 0x240, 1, 0x2C7E),
      (0x242, 0x242, 1, 0x241), (0x247, 0x24F, 2, 0x246), (0x250, 0x250, 1, 0x2C6F),
      (0x251, 0x251, 1, 0x2C6D), (0x252, 0x252, 1, 0x2C70), (0x253, 0x253, 1, 0x181),
      (0x254, 0x254, 1, 0x186), (0x256, 0x257, 1, 0x189), (0x259, 0x259, 1, 0x18F),
      (0x25B, 0x25B, 1, 0x190), (0x25C, 0x25C, 1, 0xA7AB), (0x260, 0x260, 1, 0x193),
      (0x261, 0x261, 1, 0xA7AC), (0x263, 0x263, 1, 0x194), (0x265, 0x265, 1, 0xA78D),
      (0x266, 0x266, 1, 0xA7AA), (0x268, 0x268, 1, 0x197), (0x269, 0x269, 1, 0x196),
      (0x26A, 0x26A, 1, 0xA7AE), (0x26B, 0x26B, 1, 0x2C62), (0x26C, 0x26C, 1, 0xA7AD),
      (0x26F, 0x26F, 1, 0x19C), (0x271, 0x271, 1, 0x2C6E), (0x272, 0x272, 1, 0x19D),
      (0x275, 0x275, 1, 0x19F), (0x27D, 0x27D, 1, 0x2C64), (0x280, 0x280, 1, 0x1A6),
      (0x282, 0x282, 1, 0xA7C5), (0x283, 0x283, 1, 0x1A9), (0x287, 0x287, 1, 0xA7B1),
      (0x288, 0x288, 1, 0x1AE), (0x289, 0x289, 1, 0x244), (0x28A, 0x28B, 1, 0x1B1),
      (0x28C, 0x28C, 1, 0x245), (0x292, 0x292, 1, 0x1B7), (0x29D, 0x29D, 1, 0xA7B2),
      (0x29E, 0x29E, 1, 0xA7B0), (0x345, 0x345, 1, 0x399), (0x371, 0x373, 2, 0x370),
      (0x377, 0x377, 1, 0x376), (0x37B, 0x37D, 1, 0x3FD), (0x3AC, 0x3AC, 1, 0x386),
      (0x3AD, 0x3AF, 1, 0x388), (0x3B1, 0x3C1, 1, 0x391), (0x3C2, 0x3C2, 1, 0x3A3),
      (0x3C3, 0x3CB, 1, 0x3A3), (0x3CC, 0x3CC, 1, 0x38C), (0x3CD, 0x3CE, 1, 0x38E),
      (0x3D0, 0x3D0, 1, 0x392), (0x3D1, 0x3D1, 1, 0x398), (0x3D5, 0x3D5, 1, 0x3A6),
      (0x3D6, 0x3D6, 1, 0x3A0), (0x3D7, 0x3D7, 1, 0x3CF), (0x3D9, 0x3EF, 2, 0x3D8),
      (0x3F0, 0x3F0, 1, 0x39A), (0x3F1, 0x3F1, 1, 0x3A1), (0x3F2, 0x3F2, 1, 0x3F9),
      (0x3F3, 0x3F3, 1, 0x37F), (0x3F5, 0x3F5, 1, 0x395), (0x3F8, 0x3F8, 1, 0x3F7),
      (0x3FB, 0x3FB, 1, 0x3FA), (0x430, 0x44F, 1, 0x410), (0x450, 0x45F, 1, 0x400),
      (0x461, 0x481, 2, 0x460), (0x48B, 0x4BF, 2, 0x48A), (0x4C2, 0x4CE, 2, 0x4C1),
      (0x4CF, 0x4CF, 1, 0x4C0), (0x4D1, 0x52F, 2, 0x4D0), (0x561, 0x586, 1, 0x531),
      (0x10D0, 0x10FA, 1, 0x1C90), (0x10FD, 0x10FF, 1, 0x1CBD), (0x13F8, 0x13FD, 1, 0x13F0),
      (0x1C80, 0x1C80, 1, 0x412), (0x1C81, 0x1C81, 1, 0x414), (0x1C82, 0x1C82, 1, 0x41E),
      (0x1C83, 0x1C84, 1, 0x421), (0x1C85, 0x1C85, 1, 0x422), (0x1C86, 0x1C86, 1, 0x42A),
      (0x1C87, 0x1C87, 1, 0x462), (0x1C88, 0x1C88, 1, 0xA64A), (0x1D79, 0x1D79, 1, 0xA77D),
      (0x1D7D, 0x1D7D, 1, 0x2C63), (0x1D8E, 0x1D8E, 1, 0xA7C6), (0x1E01, 0x1E95, 2, 0x1E00),
      (0x1E9B, 0x1E9B, 1, 0x1E60), (0x1EA1, 0x1EFF, 2, 0x1EA0), (0x1F00, 0x1F07, 1, 0x1F08),
      (0x1F10, 0x1F15, 1, 0x1F18), (0x1F20, 0x1F27, 1, 0x1F28), (0x1F30, 0x1F37, 1, 0x1F38),
      (0x1F40, 0x1F45, 1, 0x1F48), (0x1F51, 0x1F57, 2, 0x1F59), (0x1F60, 0x1F67, 1, 0x1F68),
      (0x1F70, 0x1F71, 1, 0x1FBA), (0x1F72, 0x1F75, 1, 0x1FC8), (0x1F76, 0x1F77, 1, 0x1FDA),
      (0x1F78, 0x1F79, 1, 0x1FF8), (0x1F7A, 0x1F7B, 1, 0x1FEA), (0x1F7C, 0x1F7D, 1, 0x1FFA),
      (0x1FB0, 0x1FB1, 1, 0x1FB8), (0x1FBE, 0x1FBE, 1, 0x399), (0x1FD0, 0x1FD1, 1, 0x1FD8),
      (0x1FE0, 0x1FE1, 1, 0x1FE8), (0x1FE5, 0x1FE5, 1, 0x1FEC), (0x214E, 0x214E, 1, 0x2132),
      (0x2170, 0x217F, 1, 0x2160), (0x2184, 0x2184, 1, 0x2183), (0x24D0, 0x24E9, 1, 0x24B6),
      (0x2C30, 0x2C5F, 1, 0x2C00), (0x2C61, 0x2C61, 1, 0x2C60), (0x2C65, 0x2C65, 1, 0x23A),
      (0x2C66, 0x2C66, 1, 0x23E), (0x2C68, 0x2C6C, 2, 0x2C67), (0x2C73, 0x2C73, 1, 0x2C72),
      (0x2C76, 0x2C76, 1, 0x2C75), (0x2C81, 0x2CE3, 2, 0x2C80), (0x2CEC, 0x2CEE, 2, 0x2CEB),
      (0x2CF3, 0x2CF3, 1, 0x2CF2), (0x2D00, 0x2D25, 1, 0x10A0), (0x2D27, 0x2D27, 1, 0x10C7),
      (0x2D2D, 0x2D2D, 1, 0x10CD), (0xA641, 0xA66D, 2, 0xA640), (0xA681, 0xA69B, 2, 0xA680),
      (0xA723, 0xA72F, 2, 0xA722), (0xA733, 0xA76F, 2, 0xA732), (0xA77A, 0xA77C, 2, 0xA779),
      (0xA77F, 0xA787, 2, 0xA77E), (0xA78C, 0xA78C, 1, 0xA78B), (0xA791, 0xA793, 2, 0xA790),
      (0xA794, 0xA794, 1, 0xA7C4), (0xA797, 0xA7A9, 2, 0xA796), (0xA7B5, 0xA7C3, 2, 0xA7B4),
      (0xA7C8, 0xA7CA, 2, 0xA7C7), (0xA7D1, 0xA7D1, 1, 0xA7D0), (0xA7D7, 0xA7D9, 2, 0xA7D6),
      (0xA7F6, 0xA7F6, 1, 0xA7F5), (0xAB53, 0xAB53, 1, 0xA7B3), (0xAB70, 0xABBF, 1, 0x13A0),
      (0xFF41, 0xFF5A, 1, 0xFF21), (0x10428, 0x1044F, 1, 0x10400), (0x104D8, 0x104FB, 1, 0x104B0),
      (0x10597, 0x105A1, 1, 0x10570), (0x105A3, 0x105B1, 1, 0x1057C), (0x105B3, 0x105B9, 1, 0x1058C),
      (0x105BB, 0x105BC, 1, 0x10594), (0x10CC0, 0x10CF2, 1, 0x10C80), (0x118C0, 0x118DF, 1, 0x118A0),
      (0x16E60, 0x16E7F, 1, 0x16E40), (0x1E922, 0x1E943, 1, 0x1E900)]"

definition upper_special :: "(nat \<times> nat list) list" where
  "upper_special =
     [(0xDF, [0x53, 0x53]), (0x149, [0x2BC, 0x4E]),
      (0x1F0, [0x4A, 0x30C]), (0x390, [0x399, 0x308, 0x301]),
      (0x3B0, [0x3A5, 0x308, 0x301]), (0x587, [0x535, 0x552]),
      (0x1E96, [0x48, 0x331]), (0x1E97, [0x54, 0x308]),
      (0x1E98, [0x57, 0x30A]), (0x1E99, [0x59, 0x30A]),
      (0x1E9A, [0x41, 0x2BE]), (0x1F50, [0x3A5, 0x313]),
      (0x1F52, [0x3A5, 0x313, 0x300]), (0x1F54, [0x3A5, 0x313, 0x301]),
      (0x1F56, [0x3A5, 0x313, 0x342]), (0x1F80, [0x1F08, 0x399]),
      (0x1F81, [0x1F09, 0x399]), (0x1F82, [0x1F0A, 0x399]),
      (0x1F83, [0x1F0B, 0x399]), (0x1F84, [0x1F0C, 0x399]),
      (0x1F85, [0x1F0D, 0x399]), (0x1F86, [0x1F0E, 0x399]),
      (0x1F87, [0x1F0F, 0x399]), (0x1F88, [0x1F08, 0x399]),
      (0x1F89, [0x1F09, 0x399]), (0x1F8A, [0x1F0A, 0x399]),
      (0x1F8B, [0x1F0B, 0x399]), (0x1F8C, [0x1F0C, 0x399]),
      (0x1F8D, [0x1F0D, 0x399]), (0x1F8E, [0x1F0E, 0x399]),
      (0x1F8F, [0x1F0F, 0x399]), (0x1F90, [0x1F28, 0x399]),
      (0x1F91, [0x1F29, 0x399]), (0x1F92, [0x1F2A, 0x399]),
      (0x1F93, [0x1F2B, 0x399]), (0x1F94, [0x1F2C, 0x399]),
      (0x1F95, [0x1F2D, 0x399]), (0x1F96, [0x1F2E, 0x399]),
      (0x1F97, [0x1F2F, 0x399]), (0x1F98, [0x1F28, 0x399]),
      (0x1F99, [0x1F29, 0x399]), (0x1F9A, [0x1F2A, 0x399]),
      (0x1F9B, [0x1F2B, 0x399]), (0x1F9C, [0x1F2C, 0x399]),
      (0x1F9D, [0x1F2D, 0x399]), (0x1F9E, [0x1F2E, 0x399]),
      (0x1F9F, [0x1F2F, 0x399]), (0x1FA0, [0x1F68, 0x399]),
      (0x1FA1, [0x1F69, 0x399]), (0x1FA2, [0x1F6A, 0x399]),
      (0x1FA3, [0x1F6B, 0x399]), (0x1FA4, [0x1F6C, 0x399]),
      (0x1FA5, [0x1F6D, 0x399]), (0x1FA6, [0x1F6E, 0x399]),
      (0x1FA7, [0x1F6F, 0x399]), (0x1FA8, [0x1F68, 0x399]),
      (0x1FA9, [0x1F69, 0x399]), (0x1FAA, [0x1F6A, 0x399]),
      (0x1FAB, [0x1F6B, 0x399]), (0x1FAC, [0x1F6C, 0x399]),
      (0x1FAD, [0x1F6D, 0x399]), (0x1FAE, [0x1F6E, 0x399]),
      (0x1FAF, [0x1F6F, 0x399]), (0x1FB2, [0x1FBA, 0x399]),
      (0x1FB3, [0x391, 0x399]), (0x1FB4, [0x386, 0x399]),
      (0x1FB6, [0x391, 0x342]), (0x1FB7, [0x391, 0x342, 0x399]),
      (0x1FBC, [0x391, 0x399]), (0x1FC2, [0x1FCA, 0x399]),
      (0x1FC3, [0x397, 0x399]), (0x1FC4, [0x389, 0x399]),
      (0x1FC6, [0x397, 0x342]), (0x1FC7, [0x397, 0x342, 0x399]),
      (0x1FCC, [0x397, 0x399]), (0x1FD2, [0x399, 0x308, 0x300]),
      (0x1FD3, [0x399, 0x308, 0x301]), (0x1FD6, [0x399, 0x342]),
      (0x1FD7, [0x399, 0x308, 0x342]), (0x1FE2, [0x3A5, 0x308, 0x300]),
      (0x1FE3, [0x3A5, 0x308, 0x301]), (0x1FE4, [0x3A1, 0x313]),
      (0x1FE6, [0x3A5, 0x342]), (0x1FE7, [0x3A5, 0x308, 0x342]),
      (0x1FF2, [0x1FFA, 0x399]), (0x1FF3, [0x3A9, 0x399]),
      (0x1FF4, [0x38F, 0x399]), (0x1FF6, [0x3A9, 0x342]),
      (0x1FF7, [0x3A9, 0x342, 0x399]), (0x1FFC, [0x3A9, 0x399]),
      (0xFB00, [0x46, 0x46]), (0xFB01, [0x46, 0x49]),
      (0xFB02, [0x46, 0x4C]), (0xFB03, [0x46, 0x46, 0x49]),
      (0xFB04, [0x46, 0x46, 0x4C]), (0xFB05, [0x53, 0x54]),
      (0xFB06, [0x53, 0x54]), (0xFB13, [0x544, 0x546]),
      (0xFB14, [0x544, 0x535]), (0xFB15, [0x544, 0x53B]),
      (0xFB16, [0x54E, 0x546]), (0xFB17, [0x544, 0x53D])]"

definition cased_ranges :: "(nat \<times> nat) list" where
  "cased_ranges =
     [(0x41, 0x5A), (0x61, 0x7A), (0xAA, 0xAA), (0xB5, 0xB5), (0xBA, 0xBA),
      (0xC0, 0xD6), (0xD8, 0xF6), (0xF8, 0x1BA), (0x1BC, 0x1BF), (0x1C4, 0x293),
      (0x295, 0x2B8), (0x2C0, 0x2C1), (0x2E0, 0x2E4), (0x345, 0x345), (0x370, 0x373),
      (0x376, 0x377), (0x37A, 0x37D), (0x37F, 0x37F), (0x386, 0x386), (0x388, 0x38A),
      (0x38C, 0x38C), (0x38E, 0x3A1), (0x3A3, 0x3F5), (0x3F7, 0x481), (0x48A, 0x52F),
      (0x531, 0x556), (0x560, 0x588), (0x10A0, 0x10C5), (0x10C7, 0x10C7), (0x10CD, 0x10CD),
      (0x10D0, 0x10FA), (0x10FD, 0x10FF), (0x13A0, 0x13F5), (0x13F8, 0x13FD), (0x1C80, 0x1C88),
      (0x1C90, 0x1CBA), (0x1CBD, 0x1CBF), (0x1D00, 0x1DBF), (0x1E00, 0x1F15), (0x1F18, 0x1F1D),
      (0x1F20, 0x1F45), (0x1F48, 0x1F4D), (0x1F50, 0x1F57), (0x1F59, 0x1F59), (0x1F5B, 0x1F5B),
      (0x1F5D, 0x1F5D), (0x1F5F, 0x1F7D), (0x1F80, 0x1FB4), (0x1FB6, 0x1FBC), (0x1FBE, 0x1FBE),
      (0x1FC2, 0x1FC4), (0x1FC6, 0x1FCC), (0x1FD0, 0x1FD3), (0x1FD6, 0x1FDB), (0x1FE0, 0x1FEC),
      (0x1FF2, 0x1FF4), (0x1FF6, 0x1FFC), (0x2071, 0x2071), (0x207F, 0x207F), (0x2090, 0x209C),
      (0x2102, 0x2102), (0x2107, 0x2107), (0x210A, 0x2113), (0x2115, 0x2115), (0x2119, 0x211D),
      (0x2124, 0x2124), (0x2126, 0x2126), (0x2128, 0x2128), (0x212A, 0x212D), (0x212F, 0x2134),
      (0x2139, 0x2139), (0x213C, 0x213F), (0x2145, 0x2149), (0x214E, 0x214E), (0x2160, 0x217F),
      (0x2183, 0x2184), (0x24B6, 0x24E9), (0x2C00, 0x2CE4), (0x2CEB, 0x2CEE), (0x2CF2, 0x2CF3),
      (0x2D00, 0x2D25), (0x2D27, 0x2D27), (0x2D2D, 0x2D2D), (0xA640, 0xA66D), (0xA680, 0xA69D),
      (0xA722, 0xA787), (0xA78B, 0xA78E), (0xA790, 0xA7CA), (0xA7D0, 0xA7D1), (0xA7D3, 0xA7D3),
      (0xA7D5, 0xA7D9), (0xA7F5, 0xA7F6), (0xA7F8, 0xA7FA), (0xAB30, 0xAB5A), (0xAB5C, 0xAB68),
      (0xAB70, 0xABBF), (0xFB00, 0xFB06), (0xFB13, 0xFB17), (0xFF21, 0xFF3A), (0xFF41, 0xFF5A),
      (0x10400, 0x1044F), (0x104B0, 0x104D3), (0x104D8, 0x104FB), (0x10570, 0x1057A), (0x1057C, 0x1058A),
      (0x1058C, 0x10592), (0x10594, 0x10595), (0x10597, 0x105A1), (0x105A3, 0x105B1), (0x105B3, 0x105B9),
      (0x105BB, 0x105BC), (0x10780, 0x10780), (0x10783, 0x10785), (0x10787, 0x107B0), (0x107B2, 0x107BA),
      (0x10C80, 0x10CB2), (0x10CC0, 0x10CF2), (0x118A0, 0x118DF), (0x16E40, 0x16E7F), (0x1D400, 0x1D454),
      (0x1D456, 0x1D49C), (0x1D49E, 0x1D49F), (0x1D4A2, 0x1D4A2), (0x1D4A5, 0x1D4A6), (0x1D4A9, 0x1D4AC),
      (0x1D4AE, 0x1D4B9), (0x1D4BB, 0x1D4BB), (0x1D4BD, 0x1D4C3), (0x1D4C5, 0x1D505), (0x1D507, 0x1D50A),
      (0x1D50D, 0x1D514), (0x1D516, 0x1D51C), (0x1D51E, 0x1D539), (0x1D53B, 0x1D53E), (0x1D540, 0x1D544),
      (0x1D546, 0x1D546), (0x1D54A, 0x1D550), (0x1D552, 0x1D6A5), (0x1D6A8, 0x1D6C0), (0x1D6C2, 0x1D6DA),
      (0x1D6DC, 0x1D6FA), (0x1D6FC, 0x1D714), (0x1D716, 0x1D734), (0x1D736, 0x1D74E), (0x1D750, 0x1D76E),
      (0x1D770, 0x1D788), (0x1D78A, 0x1D7A8), (0x1D7AA, 0x1D7C2), (0x1D7C4, 0x1D7CB), (0x1DF00, 0x1DF09),
      (0x1DF0B, 0x1DF1E), (0x1E900, 0x1E943), (0x1F130, 0x1F149), (0x1F150, 0x1F169), (0x1F170, 0x1F189)]"

definition case_ignorable_ranges :: "(nat \<times> nat) list" where
  "case_ignorable_ranges =
     [(0x27, 0x27), (0x2E, 0x2E), (0x3A, 0x3A), (0x5E, 0x5E), (0x60, 0x60),
      (0xA8, 0xA8), (0xAD, 0xAD), (0xAF, 0xAF), (0xB4, 0xB4), (0xB7, 0xB8),
      (0x2B0, 0x36F), (0x374, 0x375), (0x37A, 0x37A), (0x384, 0x385), (0x387, 0x387),
      (0x483, 0x489), (0x559, 0x559), (0x55F, 0x55F), (0x591, 0x5BD), (0x5BF, 0x5BF),
      (0x5C1, 0x5C2), (0x5C4, 0x5C5), (0x5C7, 0x5C7), (0x5F4, 0x5F4), (0x600, 0x605),
      (0x610, 0x61A), (0x61C, 0x61C), (0x640, 0x640), (0x64B, 0x65F), (0x670, 0x670),
      (0x6D6, 0x6DD), (0x6DF, 0x6E8), (0x6EA, 0x6ED), (0x70F, 0x70F), (0x711, 0x711),
      (0x730, 0x74A), (0x7A6, 0x7B0), (0x7EB, 0x7F5), (0x7FA, 0x7FA), (0x7FD, 0x7FD),
      (0x816, 0x82D), (0x859, 0x85B), (0x888, 0x888), (0x890, 0x891), (0x898, 0x89F),
      (0x8C9, 0x902), (0x93A, 0x93A), (0x93C, 0x93C), (0x941, 0x948), (0x94D, 0x94D),
      (0x951, 0x957), (0x962, 0x963), (0x971, 0x971), (0x981, 0x981), (0x9BC, 0x9BC),
      (0x9C1, 0x9C4), (0x9CD, 0x9CD), (0x9E2, 0x9E3), (0x9FE, 0x9FE), (0xA01, 0xA02),
      (0xA3C, 0xA3C), (0xA41, 0xA42), (0xA47, 0xA48), (0xA4B, 0xA4D), (0xA51, 0xA51),
      (0xA70, 0xA71), (0xA75, 0xA75), (0xA81, 0xA82), (0xABC, 0xABC), (0xAC1, 0xAC5),
      (0xAC7, 0xAC8), (0xACD, 0xACD), (0xAE2, 0xAE3), (0xAFA, 0xAFF), (0xB01, 0xB01),
      (0xB3C, 0xB3C), (0xB3F, 0xB3F), (0xB41, 0xB44), (0xB4D, 0xB4D), (0xB55, 0xB56),
      (0xB62, 0xB63), (0xB82, 0xB82), (0xBC0, 0xBC0), (0xBCD, 0xBCD), (0xC00, 0xC00),
      (0xC04, 0xC04), (0xC3C, 0xC3C), (0xC3E, 0xC40), (0xC46, 0xC48), (0xC4A, 0xC4D),
      (0xC55, 0xC56), (0xC62, 0xC63), (0xC81, 0xC81), (0xCBC, 0xCBC), (0xCBF, 0xCBF),
      (0xCC6, 0xCC6), (0xCCC, 0xCCD), (0xCE2, 0xCE3), (0xD00, 0xD01), (0xD3B, 0xD3C),
      (0xD41, 0xD44), (0xD4D, 0xD4D), (0xD62, 0xD63), (0xD81, 0xD81), (0xDCA, 0xDCA),
      (0xDD2, 0xDD4), (0xDD6, 0xDD6), (0xE31, 0xE31), (0xE34, 0xE3A), (0xE46, 0xE4E),
      (0xEB1, 0xEB1), (0xEB4, 0xEBC), (0xEC6, 0xEC6), (0xEC8, 0xECD), (0xF18, 0xF19),
      (0xF35, 0xF35), (0xF37, 0xF37), (0xF39, 0xF39), (0xF71, 0xF7E), (0xF80, 0xF84),
      (0xF86, 0xF87), (0xF8D, 0xF97), (0xF99, 0xFBC), (0xFC6, 0xFC6), (0x102D, 0x1030),
      (0x1032, 0x1037), (0x1039, 0x103A), (0x103D, 0x103E), (0x1058, 0x1059), (0x105E, 0x1060),
      (0x1071, 0x1074), (0x1082, 0x1082), (0x1085, 0x1086), (0x108D, 0x108D), (0x109D, 0x109D),
      (0x10FC, 0x10FC), (0x135D, 0x135F), (0x1712, 0x1714), (0x1732, 0x1733), (0x1752, 0x1753),
      (0x1772, 0x1773), (0x17B4, 0x17B5), (0x17B7, 0x17BD), (0x17C6, 0x17C6), (0x17C9, 0x17D3),
      (0x17D7, 0x17D7), (0x17DD, 0x17DD), (0x180B, 0x180F), (0x1843, 0x1843), (0x1885, 0x1886),
      (0x18A9, 0x18A9), (0x1920, 0x1922), (0x1927, 0x1928), (0x1932, 0x1932), (0x1939, 0x193B),
      (0x1A17, 0x1A18), (0x1A1B, 0x1A1B), (0x1A56, 0x1A56), (0x1A58, 0x1A5E), (0x1A60, 0x1A60),
      (0x1A62, 0x1A62), (0x1A65, 0x1A6C), (0x1A73, 0x1A7C), (0x1A7F, 0x1A7F), (0x1AA7, 0x1AA7),
      (0x1AB0, 0x1ACE), (0x1B00, 0x1B03), (0x1B34, 0x1B34), (0x1B36, 0x1B3A), (0x1B3C, 0x1B3C),
      (0x1B42, 0x1B42), (0x1B6B, 0x1B73), (0x1B80, 0x1B81), (0x1BA2, 0x1BA5), (0x1BA8, 0x1BA9),
      (0x1BAB, 0x1BAD), (0x1BE6, 0x1BE6), (0x1BE8, 0x1BE9), (0x1BED, 0x1BED), (0x1BEF, 0x1BF1),
      (0x1C2C, 0x1C33), (0x1C36, 0x1C37), (0x1C78, 0x1C7D), (0x1CD0, 0x1CD2), (0x1CD4, 0x1CE0),
      (0x1CE2, 0x1CE8), (0x1CED, 0x1CED), (0x1CF4, 0x1CF4), (0x1CF8, 0x1CF9), (0x1D2C, 0x1D6A),
      (0x1D78, 0x1D78), (0x1D9B, 0x1DFF), (0x1FBD, 0x1FBD), (0x1FBF, 0x1FC1), (0x1FCD, 0x1FCF),
      (0x1FDD, 0x1FDF), (0x1FED, 0x1FEF), (0x1FFD, 0x1FFE), (0x200B, 0x200F), (0x2018, 0x2019),
      (0x2024, 0x2024), (0x2027, 0x2027), (0x202A, 0x202E), (0x2060, 0x2064), (0x2066, 0x206F),
      (0x2071, 0x2071), (0x207F, 0x207F), (0x2090, 0x209C), (0x20D0, 0x20F0), (0x2C7C, 0x2C7D),
      (0x2CEF, 0x2CF1), (0x2D6F, 0x2D6F), (0x2D7F, 0x2D7F), (0x2DE0, 0x2DFF), (0x2E2F, 0x2E2F),
      (0x3005, 0x3005), (0x302A, 0x302D), (0x3031, 0x3035), (0x303B, 0x303B), (0x3099, 0x309E),
      (0x30FC, 0x30FE), (0xA015, 0xA015), (0xA4F8, 0xA4FD), (0xA60C, 0xA60C), (0xA66F, 0xA672),
      (0xA674, 0xA67D), (0xA67F, 0xA67F), (0xA69C, 0xA69F), (0xA6F0, 0xA6F1), (0xA700, 0xA721),
      (0xA770, 0xA770), (0xA788, 0xA78A), (0xA7F2, 0xA7F4), (0xA7F8, 0xA7F9), (0xA802, 0xA802),
      (0xA806, 0xA806), (0xA80B, 0xA80B), (0xA825, 0xA826), (0xA82C, 0xA82C), (0xA8C4, 0xA8C5),
      (0xA8E0, 0xA8F1), (0xA8FF, 0xA8FF), (0xA926, 0xA92D), (0xA947, 0xA951), (0xA980, 0xA982),
      (0xA9B3, 0xA9B3), (0xA9B6, 0xA9B9), (0xA9BC, 0xA9BD), (0xA9CF, 0xA9CF), (0xA9E5, 0xA9E6),
      (0xAA29, 0xAA2E), (0xAA31, 0xAA32), (0xAA35, 0xAA36), (0xAA43, 0xAA43), (0xAA4C, 0xAA4C),
      (0xAA70, 0xAA70), (0xAA7C, 0xAA7C), (0xAAB0, 0xAAB0), (0xAAB2, 0xAAB4), (0xAAB7, 0xAAB8),
      (0xAABE, 0xAABF), (0xAAC1, 0xAAC1), (0xAADD, 0xAADD), (0xAAEC, 0xAAED), (0xAAF3, 0xAAF4),
      (0xAAF6, 0xAAF6), (0xAB5B, 0xAB5F), (0xAB69, 0xAB6B), (0xABE5, 0xABE5), (0xABE8, 0xABE8),
      (0xABED, 0xABED), (0xFB1E, 0xFB1E), (0xFBB2, 0xFBC2), (0xFE00, 0xFE0F), (0xFE13, 0xFE13),
      (0xFE20, 0xFE2F), (0xFE52, 0xFE52), (0xFE55, 0xFE55), (0xFEFF, 0xFEFF), (0xFF07, 0xFF07),
      (0xFF0E, 0xFF0E), (0xFF1A, 0xFF1A), (0xFF3E, 0xFF3E), (0xFF40, 0xFF40), (0xFF70, 0xFF70),
      (0xFF9E, 0xFF9F), (0xFFE3, 0xFFE3), (0xFFF9, 0xFFFB), (0x101FD, 0x101FD), (0x102E0, 0x102E0),
      (0x10376, 0x1037A), (0x10780, 0x10785), (0x10787, 0x107B0), (0x107B2, 0x107BA), (0x10A01, 0x10A03),
      (0x10A05, 0x10A06), (0x10A0C, 0x10A0F), (0x10A38, 0x10A3A), (0x10A3F, 0x10A3F), (0x10AE5, 0x10AE6),
      (0x10D24, 0x10D27), (0x10EAB, 0x10EAC), (0x10F46, 0x10F50), (0x10F82, 0x10F85), (0x11001, 0x11001),
      (0x11038, 0x11046), (0x11070, 0x11070), (0x11073, 0x11074), (0x1107F, 0x11081), (0x110B3, 0x110B6),
      (0x110B9, 0x110BA), (0x110BD, 0x110BD), (0x110C2, 0x110C2), (0x110CD, 0x110CD), (0x11100, 0x11102),
      (0x11127, 0x1112B), (0x1112D, 0x11134), (0x11173, 0x11173), (0x11180, 0x11181), (0x111B6, 0x111BE),
      (0x111C9, 0x111CC), (0x111CF, 0x111CF), (0x1122F, 0x11231), (0x11234, 0x11234), (0x11236, 0x11237),
      (0x1123E, 0x1123E), (0x112DF, 0x112DF), (0x112E3, 0x112EA), (0x11300, 0x11301), (0x1133B, 0x1133C),
      (0x11340, 0x11340), (0x11366, 0x1136C), (0x11370, 0x11374), (0x11438, 0x1143F), (0x11442, 0x11444),
      (0x11446, 0x11446), (0x1145E, 0x1145E), (0x114B3, 0x114B8), (0x114BA, 0x114BA), (0x114BF, 0x114C0),
      (0x114C2, 0x114C3), (0x115B2, 0x115B5), (0x115BC, 0x115BD), (0x115BF, 0x115C0), (0x115DC, 0x115DD),
      (0x11633, 0x1163A), (0x1163D, 0x1163D), (0x1163F, 0x11640), (0x116AB, 0x116AB), (0x116AD, 0x116AD),
      (0x116B0, 0x116B5), (0x116B7, 0x116B7), (0x1171D, 0x1171F), (0x11722, 0x11725), (0x11727, 0x1172B),
      (0x1182F, 0x11837), (0x11839, 0x1183A), (0x1193B, 0x1193C), (0x1193E, 0x1193E), (0x11943, 0x11943),
      (0x119D4, 0x119D7), (0x119DA, 0x119DB), (0x119E0, 0x119E0), (0x11A01, 0x11A0A), (0x11A33, 0x11A38),
      (0x11A3B, 0x11A3E), (0x11A47, 0x11A47), (0x11A51, 0x11A56), (0x11A59, 0x11A5B), (0x11A8A, 0x11A96),
      (0x11A98, 0x11A99), (0x11C30, 0x11C36), (0x11C38, 0x11C3D), (0x11C3F, 0x11C3F), (0x11C92, 0x11CA7),
      (0x11CAA, 0x11CB0), (0x11CB2, 0x11CB3), (0x11CB5, 0x11CB6), (0x11D31, 0x11D36), (0x11D3A, 0x11D3A),
      (0x11D3C, 0x11D3D), (0x11D3F, 0x11D45), (0x11D47, 0x11D47), (0x11D90, 0x11D91), (0x11D95, 0x11D95),
      (0x11D97, 0x11D97), (0x11EF3, 0x11EF4), (0x13430, 0x13438), (0x16AF0, 0x16AF4), (0x16B30, 0x16B36),
      (0x16B40, 0x16B43), (0x16F4F, 0x16F4F), (0x16F8F, 0x16F9F), (0x16FE0, 0x16FE1), (0x16FE3, 0x16FE4),
      (0x1AFF0, 0x1AFF3), (0x1AFF5, 0x1AFFB), (0x1AFFD, 0x1AFFE), (0x1BC9D, 0x1BC9E), (0x1BCA0, 0x1BCA3),
      (0x1CF00, 0x1CF2D), (0x1CF30, 0x1CF46), (0x1D167, 0x1D169), (0x1D173, 0x1D182), (0x1D185, 0x1D18B),
      (0x1D1AA, 0x1D1AD), (0x1D242, 0x1D244), (0x1DA00, 0x1DA36), (0x1DA3B, 0x1DA6C), (0x1DA75, 0x1DA75),
      (0x1DA84, 0x1DA84), (0x1DA9B, 0x1DA9F), (0x1DAA1, 0x1DAAF), (0x1E000, 0x1E006), (0x1E008, 0x1E018),
      (0x1E01B, 0x1E021), (0x1E023, 0x1E024), (0x1E026, 0x1E02A), (0x1E130, 0x1E13D), (0x1E2AE, 0x1E2AE),
      (0x1E2EC, 0x1E2EF), (0x1E8D0, 0x1E8D6), (0x1E944, 0x1E94B), (0x1F3FB, 0x1F3FF), (0xE0001, 0xE0001),
      (0xE0020, 0xE007F), (0xE0100, 0xE01EF)]"

fun run_lookup :: "nat \<Rightarrow> (nat \<times> nat \<times> nat \<times> nat) list \<Rightarrow> nat option" where
  "run_lookup c [] = None"
| "run_lookup c ((lo, hi, step, target) # runs) =
     (if lo \<le> c \<and> c \<le> hi \<and> (c - lo) mod step = 0 then Some (target + (c - lo))
      else run_lookup c runs)"

definition case_map ::
  "(nat \<times> nat list) list \<Rightarrow> (nat \<times> nat \<times> nat \<times> nat) list \<Rightarrow> nat \<Rightarrow> nat list" where
  "case_map special runs c =
     (case map_of special c of
        Some cs \<Rightarrow> cs
      | None \<Rightarrow> (case run_lookup c runs of Some d \<Rightarrow> [d] | None \<Rightarrow> [c]))"

text \<open>The full lower-case and upper-case image of one code point.\<close>

definition lower_cp :: "nat \<Rightarrow> nat list" where
  "lower_cp c = case_map lower_special lower_runs c"

definition upper_cp :: "nat \<Rightarrow> nat list" where
  "upper_cp c = case_map upper_special upper_runs c"

fun in_ranges :: "nat \<Rightarrow> (nat \<times> nat) list \<Rightarrow> bool" where
  "in_ranges c [] = False"
| "in_ranges c ((lo, hi) # ranges) =
     (if lo \<le> c \<and> c \<le> hi then True else in_ranges c ranges)"

definition cased :: "nat \<Rightarrow> bool" where
  "cased c = in_ranges c cased_ranges"

definition case_ignorable :: "nat \<Rightarrow> bool" where
  "case_ignorable c = in_ranges c case_ignorable_ranges"

text \<open>
  \<open>str.lower\<close> maps each code point by the table, except the capital sigma U+03A3:
  it becomes the final sigma U+03C2 when a cased letter stands before it (case-ignorable
  characters in between skipped) and no cased letter follows it (again skipping
  case-ignorable characters), and the small sigma U+03C3 otherwise. \<open>passed\<close> holds
  the characters already read, the nearest first.
\<close>

definition sigma :: nat where
  "sigma = 0x3A3"

definition final_sigma :: "str \<Rightarrow> str \<Rightarrow> bool" where
  "final_sigma passed coming =
     (case dropWhile case_ignorable passed of
        [] \<Rightarrow> False
      | b # _ \<Rightarrow>
          cased b \<and>
          (case dropWhile case_ignorable coming of [] \<Rightarrow> True | a # _ \<Rightarrow> \<not> cased a))"

fun lower_from :: "str \<Rightarrow> str \<Rightarrow> str" where
  "lower_from passed [] = []"
| "lower_from passed (c # coming) =
     (if c = sigma then [if final_sigma passed coming then 0x3C2 else 0x3C3]
      else lower_cp c)
     @ lower_from (c # passed) coming"

definition str_lower :: "str \<Rightarrow> str" where
  "str_lower s = lower_from [] s"

text \<open>\<open>str.upper\<close> maps each code point by the table, whatever stands around it.\<close>

definition str_upper :: "str \<Rightarrow> str" where
  "str_upper s = concat (map upper_cp s)"

text \<open>
  A code point folds back when lower-casing its upper-case image gives its lower-case
  image, and neither it nor that image brings in the capital sigma. Every ASCII
  character and the letters of the Polish alphabet fold back, as does U+00FF; U+00DF,
  U+00B5, U+0131, U+017F and the small sigma U+03C3 do not.
\<close>

definition folds_back :: "nat \<Rightarrow> bool" where
  "folds_back c =
     (c \<noteq> sigma \<and> sigma \<notin> set (upper_cp c)
      \<and> concat (map lower_cp (upper_cp c)) = lower_cp c)"

text \<open>\<open>sep.join(xs)\<close> for a list of strings.\<close>

fun join :: "str \<Rightarrow> str list \<Rightarrow> str" where
  "join sep [] = []"
| "join sep [x] = x"
| "join sep (x # y # ys) = x @ sep @ join sep (y # ys)"

text \<open>
  \<open>s.split(sep)\<close> for a one-character separator: every occurrence splits, and the
  result always has at least one (possibly empty) piece.
\<close>

fun split :: "nat \<Rightarrow> str \<Rightarrow> str list" where
  "split sep [] = [[]]"
| "split sep (c # cs) =
     (if c = sep then [] # split sep cs
      else (case split sep cs of
              [] \<Rightarrow> [[c]]
            | w # ws \<Rightarrow> (c # w) # ws))"

definition colon :: nat where
  "colon = 58"

section \<open>\<open>JobSearch\<close>\<close>

text \<open>
  The dataclass has two fields and no \<open>__post_init__\<close>: its constructor stores the
  arguments and cannot fail.
\<close>

record job_search =
  position :: str
  city :: "str option"

definition JobSearch :: "str \<Rightarrow> str option \<Rightarrow> job_search" where
  "JobSearch p c = \<lparr>position = p, city = c\<rparr>"

text \<open>
  \<open>if self.city:\<close> is Python truthiness: \<open>None\<close> and the empty string are both
  false, so an empty city gives the identifier of the search without a city.
\<close>

definition get_search_id :: "job_search \<Rightarrow> str" where
  "get_search_id s =
     (case city s of
        None \<Rightarrow> str_lower (position s)
      | Some c \<Rightarrow>
          if c \<noteq> [] then str_lower (position s @ [colon] @ c)
          else str_lower (position s))"

text \<open>
  Line 182 of \<open>process_offers\<close>: the offer key is the search identifier, a colon and
  the group id.
\<close>

definition offer_id :: "job_search \<Rightarrow> str \<Rightarrow> str" where
  "offer_id search gid = get_search_id search @ [colon] @ gid"

definition offer_key :: "str \<Rightarrow> str" where
  "offer_key oid = lit ''offer:'' @ oid"

section \<open>Errors\<close>

text \<open>
  The exceptions the modelled code can meet: a missing dictionary key, an index into an
  empty list, a subscript or an iteration on a value that has none, a star-unpacking of
  an empty sequence, a store call that cannot reach the server, and the client's refusal
  of an empty field mapping. A function that can raise
  returns \<open>error + 'a\<close>; a procedure that can raise after it has changed the
  monitor returns the exception, if any, together with the monitor as it then is.
\<close>

datatype error =
    KeyError string
  | IndexError
  | TypeError
  | ValueError
  | ConnectionError
  | DataError

definition ebind :: "error + 'a \<Rightarrow> ('a \<Rightarrow> error + 'b) \<Rightarrow> error + 'b" where
  "ebind m f = (case m of Inl e \<Rightarrow> Inl e | Inr x \<Rightarrow> f x)"

text \<open>\<open>d[key]\<close> on a field that may be missing from the dictionary.\<close>

definition getitem :: "'a option \<Rightarrow> string \<Rightarrow> error + 'a" where
  "getitem field key = (case field of None \<Rightarrow> Inl (KeyError key) | Some v \<Rightarrow> Inr v)"

text \<open>The subscript \<open>[0]\<close> on a list.\<close>

fun index0 :: "'a list \<Rightarrow> error + 'a" where
  "index0 [] = Inl IndexError"
| "index0 (item # others) = Inr item"

section \<open>Offers as the source returns them\<close>

text \<open>
  An offer is a JSON object. The model gives every field the type the payload has
  (text, a list of texts, a list of nested objects) and lets every field be missing,
  so that each \<open>offer['...']\<close> of the code is a lookup that can raise \<open>KeyError\<close>.
  Values of another JSON type are outside the model.
\<close>

record sub_offer =
  displayWorkplace :: "str option"
  offerAbsoluteUri :: "str option"

record offer =
  groupId :: "str option"
  companyName :: "str option"
  jobTitle :: "str option"
  lastPublicated :: "str option"
  technologies :: "str list option"
  offers :: "sub_offer list option"
  positionLevels :: "str list option"
  salaryDisplayText :: "str option"

text \<open>
  The dictionary literal \<open>offer_data\<close> of \<open>process_offers\<close>, its entries evaluated
  in the order written. All eight values are strings; \<open>offer.get('salaryDisplayText', '')\<close>
  puts the empty string under the key when the offer has no such field.
\<close>

definition build_offer_data :: "offer \<Rightarrow> error + (string \<times> str) list" where
  "build_offer_data offer =
     ebind (getitem (companyName offer) ''companyName'') (\<lambda>company.
     ebind (getitem (jobTitle offer) ''jobTitle'') (\<lambda>title.
     ebind (getitem (lastPublicated offer) ''lastPublicated'') (\<lambda>published.
     ebind (getitem (technologies offer) ''technologies'') (\<lambda>techs.
     ebind (getitem (offers offer) ''offers'') (\<lambda>subs1.
     ebind (index0 subs1) (\<lambda>sub1.
     ebind (getitem (displayWorkplace sub1) ''displayWorkplace'') (\<lambda>workplace.
     ebind (getitem (offers offer) ''offers'') (\<lambda>subs2.
     ebind (index0 subs2) (\<lambda>sub2.
     ebind (getitem (offerAbsoluteUri sub2) ''offerAbsoluteUri'') (\<lambda>uri.
     ebind (getitem (positionLevels offer) ''positionLevels'') (\<lambda>levels.
     Inr [(''companyName'', company),
          (''jobTitle'', title),
          (''lastPublicated'', published),
          (''technologies'', join (lit '','') techs),
          (''displayWorkplace'', workplace),
          (''offerAbsoluteUri'', uri),
          (''positionLevels'', join (lit '','') levels),
          (''salaryDisplayText'',
             (case salaryDisplayText offer of None \<Rightarrow> [] | Some s \<Rightarrow> s))])))))))))))"

section \<open>The store, the collaborators and the monitor\<close>

text \<open>
  The Redis server as the monitor uses it: whether calls reach it (one answer for the
  whole run), the set stored under \<open>job_searches\<close> (a list without duplicates, in
  the order \<open>smembers\<close> hands it out) and the hashes, by key. The monitor only ever
  asks \<open>exists\<close> for keys of the form \<open>offer:...\<close>, which are hashes.
\<close>

record redis =
  reachable :: bool
  job_searches :: "str list"
  hashes :: "str \<rightharpoonup> (string \<rightharpoonup> str)"

definition redis_exists :: "redis \<Rightarrow> str \<Rightarrow> error + bool" where
  "redis_exists r key =
     (if reachable r
      then Inr (case hashes r key of None \<Rightarrow> False | Some h \<Rightarrow> True)
      else Inl ConnectionError)"

text \<open>
  \<open>hmset(name, mapping)\<close> sets the given fields of the hash and keeps its other
  fields; the client raises \<open>DataError\<close> on an empty mapping before it sends anything.
\<close>

definition redis_hmset :: "redis \<Rightarrow> str \<Rightarrow> (string \<times> str) list \<Rightarrow> error + redis" where
  "redis_hmset r key mapping =
     (if mapping = [] then Inl DataError
      else if \<not> reachable r then Inl ConnectionError
      else Inr (r\<lparr>hashes := (hashes r)(key \<mapsto>
                  (case hashes r key of None \<Rightarrow> Map.empty | Some h \<Rightarrow> h) ++ map_of mapping)\<rparr>))"

definition redis_smembers :: "redis \<Rightarrow> error + str list" where
  "redis_smembers r = (if reachable r then Inr (job_searches r) else Inl ConnectionError)"

definition redis_sadd :: "redis \<Rightarrow> str \<Rightarrow> error + redis" where
  "redis_sadd r member =
     (if \<not> reachable r then Inl ConnectionError
      else Inr (r\<lparr>job_searches :=
                  (if member \<in> set (job_searches r) then job_searches r
                   else job_searches r @ [member])\<rparr>))"

definition redis_srem :: "redis \<Rightarrow> str \<Rightarrow> error + redis" where
  "redis_srem r member =
     (if \<not> reachable r then Inl ConnectionError
      else Inr (r\<lparr>job_searches := removeAll member (job_searches r)\<rparr>))"

text \<open>
  The calls that leave the process, in the order they are made: a page request for a
  search, a write of an offer snapshot, and a message handed to the bot together with
  whether the bot delivered it.
\<close>

datatype event =
    Fetch job_search
  | Hmset str "(string \<times> str) list"
  | SendMessage str bool

fun is_write :: "event \<Rightarrow> bool" where
  "is_write (Hmset key mapping) = True"
| "is_write e = False"

fun is_notification :: "event \<Rightarrow> bool" where
  "is_notification (SendMessage text ok) = True"
| "is_notification e = False"

text \<open>
  What \<open>get_job_offers\<close> can meet, one constructor for each way its body ends:
  \<open>requests.get\<close> raises, \<open>raise_for_status\<close> raises, the page has no
  \<open>__NEXT_DATA__\<close> script, \<open>json.loads\<close> raises, the path
  \<open>props/pageProps/data/jobOffers/groupedOffers\<close> is missing, or a value is there.
  The code returns that value without looking at it, so three shapes are told apart:
  a list of objects; a value that Python takes for false and that is no list (null,
  false, 0, the empty string, the empty object); and a list that begins with some
  objects and goes on with an element that is not an object, which with no leading
  object also stands for a true value that is no list (a number, true, a non-empty
  string or object), since both raise \<open>TypeError\<close> before anything is done.
\<close>

datatype fetch_result =
    RequestFailed
  | BadStatus
  | NoNextData
  | BadJson
  | MissingPath
  | GroupedOffers "offer list"
  | GroupedFalsy
  | GroupedBroken "offer list"

text \<open>What \<open>get_job_offers\<close> returns: the same three shapes.\<close>

datatype returned =
    OfferList "offer list"
  | FalsyValue
  | BrokenList "offer list"

text \<open>
  The two collaborators answer as functions of everything that has left the process so
  far, which lets an answer change from one call to the next. The page that is
  requested depends on the search alone (\<open>get_url\<close> builds it from the position and
  the city), so the source is asked with the search; the URL itself is not modelled.
\<close>

record world =
  deliver :: "event list \<Rightarrow> str \<Rightarrow> bool"
  fetch :: "event list \<Rightarrow> job_search \<Rightarrow> fetch_result"

text \<open>
  The fields of \<open>JobMonitor\<close> that the monitored behaviour depends on. \<open>searches\<close> is
  a Python dictionary, which keeps insertion order. Logging and the two \<open>sleep\<close>
  calls are not modelled.
\<close>

record monitor =
  redis_client :: "redis option"
  searches :: "(str \<times> job_search) list"
  trace :: "event list"

text \<open>\<open>d[key] = value\<close> and \<open>d.pop(key, None)\<close> on an insertion-ordered dictionary.\<close>

fun dict_set :: "('k \<times> 'v) list \<Rightarrow> 'k \<Rightarrow> 'v \<Rightarrow> ('k \<times> 'v) list" where
  "dict_set [] key v = [(key, v)]"
| "dict_set ((k, x) # kvs) key v =
     (if k = key then (key, v) # kvs else (k, x) # dict_set kvs key v)"

fun dict_pop :: "('k \<times> 'v) list \<Rightarrow> 'k \<Rightarrow> ('k \<times> 'v) list" where
  "dict_pop [] key = []"
| "dict_pop ((k, x) # kvs) key =
     (if k = key then dict_pop kvs key else (k, x) # dict_pop kvs key)"

section \<open>The registry\<close>

definition add_search :: "str \<Rightarrow> str option \<Rightarrow> monitor \<Rightarrow> error option \<times> monitor" where
  "add_search p c st =
     (let search = JobSearch p c;
          search_id = get_search_id search;
          st1 = st\<lparr>searches := dict_set (searches st) search_id search\<rparr>
      in case redis_client st1 of
           None \<Rightarrow> (None, st1)
         | Some r \<Rightarrow>
             (case redis_sadd r search_id of
                Inl e \<Rightarrow> (Some e, st1)
              | Inr r' \<Rightarrow> (None, st1\<lparr>redis_client := Some r'\<rparr>)))"

definition remove_search :: "str \<Rightarrow> str option \<Rightarrow> monitor \<Rightarrow> error option \<times> monitor" where
  "remove_search p c st =
     (let search = JobSearch p c;
          search_id = get_search_id search;
          st1 = st\<lparr>searches := dict_pop (searches st) search_id\<rparr>
      in case redis_client st1 of
           None \<Rightarrow> (None, st1)
         | Some r \<Rightarrow>
             (case redis_srem r search_id of
                Inl e \<Rightarrow> (Some e, st1)
              | Inr r' \<Rightarrow> (None, st1\<lparr>redis_client := Some r'\<rparr>)))"

definition DEFAULT_SEARCHES :: "(str \<times> str option) list" where
  "DEFAULT_SEARCHES =
     [(lit ''DevOps Engineer'', Some (lit ''Wroclaw'')),
      (lit ''Cloud Engineer'', Some (lit ''Warszawa'')),
      (lit ''DevOps Engineer'', None)]"

text \<open>
  \<open>position, *city = search_str.split(":")\<close> followed by the arguments of the call
  \<open>add_search(position, city[0] if city else None)\<close>. The star target takes every
  piece after the first; only its first element is used.
\<close>

definition parse_search_str :: "str \<Rightarrow> error + (str \<times> str option)" where
  "parse_search_str search_str =
     (case split colon search_str of
        [] \<Rightarrow> Inl ValueError
      | p # c \<Rightarrow> Inr (p, (case c of [] \<Rightarrow> None | c0 # _ \<Rightarrow> Some c0)))"

text \<open>
  The two \<open>for\<close> loops of \<open>JobMonitor.setup\<close> and the method itself (named
  \<open>setup_monitor\<close> here); an exception ends the loop.
\<close>

fun add_defaults :: "(str \<times> str option) list \<Rightarrow> monitor \<Rightarrow> error option \<times> monitor" where
  "add_defaults [] st = (None, st)"
| "add_defaults ((p, c) # rest) st =
     (case add_search p c st of
        (Some e, st1) \<Rightarrow> (Some e, st1)
      | (None, st1) \<Rightarrow> add_defaults rest st1)"

fun add_saved :: "str list \<Rightarrow> monitor \<Rightarrow> error option \<times> monitor" where
  "add_saved [] st = (None, st)"
| "add_saved (search_str # rest) st =
     (case parse_search_str search_str of
        Inl e \<Rightarrow> (Some e, st)
      | Inr (p, c) \<Rightarrow>
          (case add_search p c st of
             (Some e, st1) \<Rightarrow> (Some e, st1)
           | (None, st1) \<Rightarrow> add_saved rest st1))"

definition setup_monitor :: "monitor \<Rightarrow> error option \<times> monitor" where
  "setup_monitor st =
     (case redis_client st of
        Some r \<Rightarrow>
          (case redis_smembers r of
             Inl e \<Rightarrow> (Some e, st)
           | Inr saved_searches \<Rightarrow>
               if saved_searches \<noteq> [] then add_saved saved_searches st
               else add_defaults DEFAULT_SEARCHES st)
      | None \<Rightarrow> add_defaults DEFAULT_SEARCHES st)"

section \<open>Notification\<close>

text \<open>
  The dictionary \<open>send_telegram_alert\<close> receives. A field is \<open>None\<close> when the key is
  not in the dictionary, which is what \<open>job['...']\<close> and \<open>job.get(..., default)\<close>
  tell apart.
\<close>

record job =
  job_jobTitle :: "str option"
  job_companyName :: "str option"
  job_displayWorkplace :: "str option"
  job_positionLevels :: "str list option"
  job_technologies :: "str list option"
  job_salaryDisplayText :: "str option"
  job_offerAbsoluteUri :: "str option"
  job_lastPublicated :: "str option"

text \<open>
  \<open>{**offer_data, 'technologies': ..., 'positionLevels': ...}\<close>: every key of
  \<open>offer_data\<close> is carried over, and the two joined strings are replaced by the lists.
\<close>

definition alert_job :: "(string \<times> str) list \<Rightarrow> str list \<Rightarrow> str list \<Rightarrow> job" where
  "alert_job offer_data techs levels =
     \<lparr>job_jobTitle = map_of offer_data ''jobTitle'',
      job_companyName = map_of offer_data ''companyName'',
      job_displayWorkplace = map_of offer_data ''displayWorkplace'',
      job_positionLevels = Some levels,
      job_technologies = Some techs,
      job_salaryDisplayText = map_of offer_data ''salaryDisplayText'',
      job_offerAbsoluteUri = map_of offer_data ''offerAbsoluteUri'',
      job_lastPublicated = map_of offer_data ''lastPublicated''\<rparr>"

definition nl :: str where
  "nl = [10]"

text \<open>The f-string of \<open>send_telegram_alert\<close>, its fields read in the order written.\<close>

definition format_message :: "job \<Rightarrow> job_search \<Rightarrow> error + str" where
  "format_message job search =
     ebind (getitem (job_jobTitle job) ''jobTitle'') (\<lambda>title.
     ebind (getitem (job_companyName job) ''companyName'') (\<lambda>company.
     ebind (getitem (job_displayWorkplace job) ''displayWorkplace'') (\<lambda>workplace.
     ebind (getitem (job_positionLevels job) ''positionLevels'') (\<lambda>levels.
     ebind (getitem (job_technologies job) ''technologies'') (\<lambda>techs.
     ebind (getitem (job_offerAbsoluteUri job) ''offerAbsoluteUri'') (\<lambda>uri.
     ebind (getitem (job_lastPublicated job) ''lastPublicated'') (\<lambda>published.
     Inr (concat
       [[0x1F6A8], lit '' New job offer: '', title, lit ''!'', nl, nl,
        [0x1F50D], lit '' Search: '', position search,
        (case city search of
           None \<Rightarrow> []
         | Some c \<Rightarrow> if c \<noteq> [] then lit '' in '' @ c else []), nl, nl,
        [0x1F3E2], lit '' Company: '', company, nl,
        [0x1F4CD], lit '' Location: '', workplace, nl,
        [0x1F4BC], lit '' Level: '', join (lit '', '') levels, nl,
        [0x1F527], lit '' Technologies: '', join (lit '', '') techs, nl,
        [0x1F4B0], lit '' Salary: '',
        (case job_salaryDisplayText job of
           None \<Rightarrow> lit ''Not specified''
         | Some salary \<Rightarrow> salary), nl,
        [0x1F517], lit '' Link: '', uri, nl, nl,
        [0x1F4C5], lit '' Published: '', published]))))))))"

text \<open>
  Everything in the method is inside \<open>try ... except Exception\<close>: it never raises.
  A message that could not be built is never handed to the bot; a message the bot
  fails to deliver has been handed to it all the same.
\<close>

definition send_telegram_alert :: "world \<Rightarrow> job \<Rightarrow> job_search \<Rightarrow> monitor \<Rightarrow> monitor" where
  "send_telegram_alert w job search st =
     (case format_message job search of
        Inl e \<Rightarrow> st
      | Inr message \<Rightarrow>
          st\<lparr>trace := trace st @ [SendMessage message (deliver w (trace st) message)]\<rparr>)"

section \<open>Fetching and processing offers\<close>

text \<open>
  Every exception inside the method, and a page without the script, give the empty
  list; a value found at the path is returned as it is.
\<close>

definition get_job_offers :: "world \<Rightarrow> job_search \<Rightarrow> monitor \<Rightarrow> returned \<times> monitor" where
  "get_job_offers w search st =
     (let st1 = st\<lparr>trace := trace st @ [Fetch search]\<rparr>
      in case fetch w (trace st) search of
           RequestFailed \<Rightarrow> (OfferList [], st1)
         | BadStatus \<Rightarrow> (OfferList [], st1)
         | NoNextData \<Rightarrow> (OfferList [], st1)
         | BadJson \<Rightarrow> (OfferList [], st1)
         | MissingPath \<Rightarrow> (OfferList [], st1)
         | GroupedOffers grouped \<Rightarrow> (OfferList grouped, st1)
         | GroupedFalsy \<Rightarrow> (FalsyValue, st1)
         | GroupedBroken grouped \<Rightarrow> (BrokenList grouped, st1))"

text \<open>
  The condition \<open>not self.redis_client or not self.redis_client.exists(...)\<close>:
  without a client the test is true and the store is not asked.
\<close>

definition is_new :: "monitor \<Rightarrow> str \<Rightarrow> error + bool" where
  "is_new st oid =
     (case redis_client st of
        None \<Rightarrow> Inr True
      | Some r \<Rightarrow> ebind (redis_exists r (offer_key oid)) (\<lambda>found. Inr (\<not> found)))"

text \<open>\<open>if self.redis_client: self.redis_client.hmset(...)\<close>.\<close>

definition record_offer :: "monitor \<Rightarrow> str \<Rightarrow> (string \<times> str) list \<Rightarrow> error + monitor" where
  "record_offer st oid offer_data =
     (case redis_client st of
        None \<Rightarrow> Inr st
      | Some r \<Rightarrow>
          ebind (redis_hmset r (offer_key oid) offer_data) (\<lambda>r'.
          Inr (st\<lparr>redis_client := Some r',
                  trace := trace st @ [Hmset (offer_key oid) offer_data]\<rparr>)))"

text \<open>
  The \<open>try ... except Exception\<close> statement in the loop of \<open>process_offers\<close>: an
  exception anywhere in it ends the work on this offer and keeps what was done before.
\<close>

definition try_offer :: "world \<Rightarrow> offer \<Rightarrow> str \<Rightarrow> job_search \<Rightarrow> monitor \<Rightarrow> monitor" where
  "try_offer w offer oid search st =
     (case is_new st oid of
        Inl e \<Rightarrow> st
      | Inr new \<Rightarrow>
          if \<not> new then st
          else
            (case build_offer_data offer of
               Inl e \<Rightarrow> st
             | Inr offer_data \<Rightarrow>
                 (case record_offer st oid offer_data of
                    Inl e \<Rightarrow> st
                  | Inr st1 \<Rightarrow>
                      (case ebind (getitem (technologies offer) ''technologies'') (\<lambda>techs.
                            ebind (getitem (positionLevels offer) ''positionLevels'') (\<lambda>levels.
                            Inr (alert_job offer_data techs levels))) of
                         Inl e \<Rightarrow> st1
                       | Inr job \<Rightarrow> send_telegram_alert w job search st1))))"

text \<open>
  \<open>offer['groupId']\<close> is read before the \<open>try\<close>: a missing group id raises out of
  the loop and out of \<open>process_offers\<close>.
\<close>

fun process_offers ::
  "world \<Rightarrow> offer list \<Rightarrow> job_search \<Rightarrow> monitor \<Rightarrow> error option \<times> monitor" where
  "process_offers w [] search st = (None, st)"
| "process_offers w (offer # rest) search st =
     (case getitem (groupId offer) ''groupId'' of
        Inl e \<Rightarrow> (Some e, st)
      | Inr gid \<Rightarrow>
          process_offers w rest search (try_offer w offer (offer_id search gid) search st))"

section \<open>The monitoring loop\<close>

text \<open>
  The \<open>for\<close> loop of \<open>run\<close> over the searches. \<open>if offers:\<close> skips an empty
  list and every other false value. On a list that goes on with an element that is
  not an object, \<open>process_offers\<close> works through the leading objects and then raises
  \<open>TypeError\<close> at \<open>offer['groupId']\<close>. An exception of \<open>process_offers\<close> leaves the
  loop.
\<close>

fun run_searches ::
  "world \<Rightarrow> job_search list \<Rightarrow> monitor \<Rightarrow> error option \<times> monitor" where
  "run_searches w [] st = (None, st)"
| "run_searches w (search # rest) st =
     (case get_job_offers w search st of
        (OfferList grouped, st1) \<Rightarrow>
          if grouped \<noteq> [] then
            (case process_offers w grouped search st1 of
               (Some e, st2) \<Rightarrow> (Some e, st2)
             | (None, st2) \<Rightarrow> run_searches w rest st2)
          else run_searches w rest st1
      | (FalsyValue, st1) \<Rightarrow> run_searches w rest st1
      | (BrokenList grouped, st1) \<Rightarrow>
          (case process_offers w grouped search st1 of
             (Some e, st2) \<Rightarrow> (Some e, st2)
           | (None, st2) \<Rightarrow> (Some TypeError, st2)))"

text \<open>
  One iteration of \<open>while True\<close>: the \<open>except Exception\<close> branch logs and sleeps, so
  the iteration ends with the monitor as the exception left it.
\<close>

definition run_cycle :: "world \<Rightarrow> monitor \<Rightarrow> monitor" where
  "run_cycle w st = snd (run_searches w (map snd (searches st)) st)"

text \<open>
  \<open>while True\<close> ends only on a keyboard interrupt, which is not modelled:
  \<open>run w n\<close> is the monitor after the first \<open>n\<close> iterations.
\<close>

fun run :: "world \<Rightarrow> nat \<Rightarrow> monitor \<Rightarrow> monitor" where
  "run w 0 st = st"
| "run w (Suc n) st = run w n (run_cycle w st)"

section \<open>Auxiliary notions and a concrete scenario\<close>

text \<open>
  An offer key is recorded when the monitor has a client, the server answers, and a
  hash is stored under the key: exactly when the test of \<open>process_offers\<close> finds the
  offer already seen.
\<close>

definition recorded :: "monitor \<Rightarrow> str \<Rightarrow> bool" where
  "recorded st key =
     (case redis_client st of
        None \<Rightarrow> False
      | Some r \<Rightarrow> reachable r \<and> (case hashes r key of None \<Rightarrow> False | Some h \<Rightarrow> True))"

text \<open>
  The scenario of the specification: the default search for DevOps engineers in
  Wroclaw, an empty store, and one offer with group id \<open>42\<close> that names no salary.
  In \<open>example_world\<close> every fetch returns that offer and the bot delivers nothing.
\<close>

definition example_search :: job_search where
  "example_search = JobSearch (lit ''DevOps Engineer'') (Some (lit ''Wroclaw''))"

definition example_offer :: offer where
  "example_offer =
     \<lparr>groupId = Some (lit ''42''),
      companyName = Some (lit ''ACME''),
      jobTitle = Some (lit ''SRE''),
      lastPublicated = Some (lit ''2024-01-01''),
      technologies = Some [lit ''AWS'', lit ''K8s''],
      offers = Some [\<lparr>displayWorkplace = Some (lit ''Wroclaw''),
                      offerAbsoluteUri = Some (lit ''https://x/1'')\<rparr>],
      positionLevels = Some [lit ''Senior''],
      salaryDisplayText = None\<rparr>"

definition example_data :: "(string \<times> str) list" where
  "example_data =
     [(''companyName'', lit ''ACME''),
      (''jobTitle'', lit ''SRE''),
      (''lastPublicated'', lit ''2024-01-01''),
      (''technologies'', lit ''AWS,K8s''),
      (''displayWorkplace'', lit ''Wroclaw''),
      (''offerAbsoluteUri'', lit ''https://x/1''),
      (''positionLevels'', lit ''Senior''),
      (''salaryDisplayText'', [])]"

definition empty_store :: redis where
  "empty_store = \<lparr>reachable = True, job_searches = [], hashes = Map.empty\<rparr>"

definition example_monitor :: monitor where
  "example_monitor =
     \<lparr>redis_client = Some empty_store,
      searches = [(lit ''devops engineer:wroclaw'', example_search)],
      trace = []\<rparr>"

definition example_world :: world where
  "example_world =
     \<lparr>deliver = (\<lambda>tr text. False),
      fetch = (\<lambda>tr search. GroupedOffers [example_offer])\<rparr>"

text \<open>
  A second search, a world in which the page of \<open>example_search\<close> cannot be
  fetched, and the monitor of the scenario without a store client.
\<close>

definition cloud_search :: job_search where
  "cloud_search = JobSearch (lit ''Cloud Engineer'') None"

definition offline_world :: world where
  "offline_world =
     \<lparr>deliver = (\<lambda>tr text. True),
      fetch = (\<lambda>tr search. if search = example_search then RequestFailed
                             else GroupedOffers [example_offer])\<rparr>"

definition no_store_monitor :: monitor where
  "no_store_monitor =
     \<lparr>redis_client = None,
      searches = [(lit ''devops engineer:wroclaw'', example_search)],
      trace = []\<rparr>"

text \<open>
  The same offer under the group id \<open>43\<close>; a monitor with an empty store and an empty
  registry; a world in which the page of \<open>example_search\<close> lists an offer without a
  group id, and one in which the value at the path is not a list of objects.
\<close>

definition second_offer :: offer where
  "second_offer = example_offer\<lparr>groupId := Some (lit ''43'')\<rparr>"

definition fresh_monitor :: monitor where
  "fresh_monitor = \<lparr>redis_client = Some empty_store, searches = [], trace = []\<rparr>"

definition unkeyed_world :: world where
  "unkeyed_world =
     \<lparr>deliver = (\<lambda>tr text. True),
      fetch = (\<lambda>tr search. if search = example_search
                             then GroupedOffers [example_offer\<lparr>groupId := None\<rparr>]
                             else GroupedOffers [example_offer])\<rparr>"

definition shapeless_world :: world where
  "shapeless_world =
     \<lparr>deliver = (\<lambda>tr text. True),
      fetch = (\<lambda>tr search. if search = example_search then GroupedBroken []
                             else GroupedOffers [example_offer])\<rparr>"

section \<open>Search identifiers and offer keys\<close>

text \<open>
  Looking a code point up in a table: the congruence rules keep the simplifier from
  walking through the rest of the table at every step.
\<close>

lemma run_lookup_cong: "c = c' \<Longrightarrow> run_lookup c runs = run_lookup c' runs"
  by simp

lemma in_ranges_cong: "c = c' \<Longrightarrow> in_ranges c ranges = in_ranges c' ranges"
  by simp

lemmas lower_runs_lookup = arg_cong [OF lower_runs_def, of "run_lookup c"] for c

lemmas upper_runs_lookup = arg_cong [OF upper_runs_def, of "run_lookup c"] for c

lemmas cased_lookup = arg_cong [OF cased_ranges_def, of "in_ranges c"] for c

lemmas case_ignorable_lookup = arg_cong [OF case_ignorable_ranges_def, of "in_ranges c"] for c

lemmas case_tables =
  lower_cp_def upper_cp_def case_map_def lower_special_def upper_special_def
  lower_runs_lookup upper_runs_lookup

lemma lower_cp_ascii: "c < 128 \<Longrightarrow> lower_cp c = [if 65 \<le> c \<and> c \<le> 90 then c + 32 else c]"
  by (simp add: case_tables cong: run_lookup_cong)

lemma upper_cp_ascii: "c < 128 \<Longrightarrow> upper_cp c = [if 97 \<le> c \<and> c \<le> 122 then c - 32 else c]"
  by (simp add: case_tables cong: run_lookup_cong)

lemma lower_from_plain: "sigma \<notin> set s \<Longrightarrow> lower_from passed s = concat (map lower_cp s)"
  by (induction s arbitrary: passed) auto

lemma str_lower_plain: "sigma \<notin> set s \<Longrightarrow> str_lower s = concat (map lower_cp s)"
  by (simp add: str_lower_def lower_from_plain)

lemma is_ascii_no_sigma: "is_ascii s \<Longrightarrow> sigma \<notin> set s"
  by (auto simp: is_ascii_def sigma_def list_all_iff)

lemma str_lower_ascii:
  "is_ascii s \<Longrightarrow> str_lower s = map (\<lambda>c. if 65 \<le> c \<and> c \<le> 90 then c + 32 else c) s"
proof -
  assume a: "is_ascii s"
  then have "concat (map lower_cp s) = map (\<lambda>c. if 65 \<le> c \<and> c \<le> 90 then c + 32 else c) s"
    by (induction s) (simp_all add: is_ascii_def lower_cp_ascii)
  then show ?thesis using str_lower_plain [OF is_ascii_no_sigma [OF a]] by simp
qed

lemma str_upper_ascii:
  "is_ascii s \<Longrightarrow> str_upper s = map (\<lambda>c. if 97 \<le> c \<and> c \<le> 122 then c - 32 else c) s"
  by (induction s) (simp_all add: is_ascii_def str_upper_def upper_cp_ascii)

lemma map_of_list_all:
  "list_all (\<lambda>(k, v). P v) t \<Longrightarrow> map_of t c = Some v \<Longrightarrow> P v"
  by (induction t) (auto split: if_splits)

lemma upper_special_nonempty: "list_all (\<lambda>(k, v). v \<noteq> []) upper_special"
  by (simp add: upper_special_def)

lemma upper_cp_nonempty: "upper_cp c \<noteq> []"
  using map_of_list_all [OF upper_special_nonempty, of c]
  by (auto simp: upper_cp_def case_map_def split: option.splits)

lemma str_upper_empty: "str_upper s = [] \<longleftrightarrow> s = []"
  by (cases s) (simp_all add: str_upper_def upper_cp_nonempty)

lemma folds_back_upper:
  "list_all folds_back s \<Longrightarrow>
     sigma \<notin> set s \<and> sigma \<notin> set (str_upper s)
     \<and> concat (map lower_cp (str_upper s)) = concat (map lower_cp s)"
  by (induction s) (auto simp: folds_back_def str_upper_def)

lemma lower_upper_folds_back:
  "list_all folds_back s \<Longrightarrow> str_lower (str_upper s) = str_lower s"
  using folds_back_upper [of s] by (simp add: str_lower_plain)

lemma ascii_folds_back: "c < 128 \<Longrightarrow> folds_back c"
  by (auto simp: folds_back_def upper_cp_ascii lower_cp_ascii sigma_def)

lemma polish_letters_fold_back:
  "list_all folds_back
     [0x104, 0x105, 0x106, 0x107, 0x118, 0x119, 0x141, 0x142, 0x143, 0x144,
      0xD3, 0xF3, 0x15A, 0x15B, 0x179, 0x17A, 0x17B, 0x17C, 0xFF]"
  by (simp add: folds_back_def sigma_def case_tables cong: run_lookup_cong)

lemma letters_that_do_not_fold_back:
  "\<not> folds_back 0xDF \<and> \<not> folds_back 0xB5 \<and> \<not> folds_back 0x131
   \<and> \<not> folds_back 0x17F \<and> \<not> folds_back 0x3C3"
  by (simp add: folds_back_def sigma_def case_tables cong: run_lookup_cong)

lemma colon_plain: "lower_cp colon = [colon]" "upper_cp colon = [colon]" "colon \<noteq> sigma"
  by (simp_all add: lower_cp_ascii upper_cp_ascii colon_def sigma_def)

text \<open>
  Claim C4, as the code has it, in two parts. First, for a position and a city without
  the capital sigma U+03A3 (whose lower-case form depends on its neighbours), the
  identifier is the lower-cased position when the city is absent or empty, and the
  lower-cased position, a colon and the lower-cased city when the city is a non-empty
  string. Second, when every character of the position and of the city folds back,
  upper-casing both arguments does not change the identifier.
\<close>

theorem get_search_id_case_insensitive:
  "(sigma \<notin> set p \<and> (case c of None \<Rightarrow> True | Some s \<Rightarrow> sigma \<notin> set s) \<longrightarrow>
      get_search_id (JobSearch p c) =
        (case c of
           None \<Rightarrow> str_lower p
         | Some s \<Rightarrow> if s = [] then str_lower p else str_lower p @ [colon] @ str_lower s))
   \<and> (list_all folds_back p \<and> (case c of None \<Rightarrow> True | Some s \<Rightarrow> list_all folds_back s) \<longrightarrow>
      get_search_id (JobSearch (str_upper p) (map_option str_upper c)) =
        get_search_id (JobSearch p c))"
proof (intro conjI impI)
  assume a: "sigma \<notin> set p \<and> (case c of None \<Rightarrow> True | Some s \<Rightarrow> sigma \<notin> set s)"
  show "get_search_id (JobSearch p c) =
        (case c of
           None \<Rightarrow> str_lower p
         | Some s \<Rightarrow> if s = [] then str_lower p else str_lower p @ [colon] @ str_lower s)"
  proof (cases c)
    case None
    then show ?thesis by (simp add: get_search_id_def JobSearch_def)
  next
    case (Some s)
    then have "sigma \<notin> set (p @ [colon] @ s)" using a colon_plain(3) by auto
    then have "str_lower (p @ [colon] @ s) = str_lower p @ [colon] @ str_lower s"
      using a Some by (simp add: str_lower_plain colon_plain(1))
    then show ?thesis using Some by (simp add: get_search_id_def JobSearch_def)
  qed
next
  assume a: "list_all folds_back p \<and> (case c of None \<Rightarrow> True | Some s \<Rightarrow> list_all folds_back s)"
  show "get_search_id (JobSearch (str_upper p) (map_option str_upper c)) =
        get_search_id (JobSearch p c)"
  proof (cases c)
    case None
    then show ?thesis
      using a by (simp add: get_search_id_def JobSearch_def lower_upper_folds_back)
  next
    case (Some s)
    have f: "folds_back colon"
      by (simp add: ascii_folds_back colon_def)
    have "list_all folds_back (p @ [colon] @ s)" using a Some f by simp
    from lower_upper_folds_back [OF this]
    have "str_lower (str_upper p @ [colon] @ str_upper s) = str_lower (p @ [colon] @ s)"
      by (simp add: str_upper_def colon_plain(2))
    moreover have "str_lower (str_upper p) = str_lower p"
      using a by (simp add: lower_upper_folds_back)
    ultimately show ?thesis
      using Some by (simp add: get_search_id_def JobSearch_def str_upper_empty)
  qed
qed

text \<open>
  A position and a city in Polish spelling: \<open>DevOps\<close> in the city written
  U+0141 U+00F3 U+0064 U+017A. Both spellings give the same identifier.
\<close>

theorem get_search_id_case_insensitive_witness:
  "sigma \<notin> set (lit ''DevOps'') \<and> sigma \<notin> set [0x141, 0xF3, 0x64, 0x17A]
   \<and> list_all folds_back (lit ''DevOps'') \<and> list_all folds_back [0x141, 0xF3, 0x64, 0x17A]
   \<and> str_upper (lit ''DevOps'') = lit ''DEVOPS''
   \<and> str_upper [0x141, 0xF3, 0x64, 0x17A] = [0x141, 0xD3, 0x44, 0x179]
   \<and> get_search_id (JobSearch (lit ''DevOps'') (Some [0x141, 0xF3, 0x64, 0x17A])) =
       lit ''devops:'' @ [0x142, 0xF3, 0x64, 0x17A]
   \<and> get_search_id (JobSearch (lit ''DEVOPS'') (Some [0x141, 0xD3, 0x44, 0x179])) =
       lit ''devops:'' @ [0x142, 0xF3, 0x64, 0x17A]"
proof -
  have n: "sigma \<notin> set (lit ''DevOps'')" "sigma \<notin> set [0x141, 0xF3, 0x64, 0x17A]"
    by (simp_all add: sigma_def lit_def)
  have up: "upper_cp 0x141 = [0x141]" "upper_cp 0xF3 = [0xD3]" "upper_cp 0x17A = [0x179]"
    by (simp_all add: case_tables cong: run_lookup_cong)
  have lo: "lower_cp 0x141 = [0x142]" "lower_cp 0xF3 = [0xF3]" "lower_cp 0x17A = [0x17A]"
    "lower_cp 0xD3 = [0xF3]" "lower_cp 0x179 = [0x17A]"
    by (simp_all add: case_tables cong: run_lookup_cong)
  have f1: "list_all folds_back (lit ''DevOps'')"
    by (simp add: lit_def ascii_folds_back)
  have d: "folds_back 0x64"
    by (simp add: ascii_folds_back)
  have "folds_back 0x141" "folds_back 0xF3" "folds_back 0x17A"
    using up lo by (simp_all add: folds_back_def sigma_def)
  then have f2: "list_all folds_back [0x141, 0xF3, 0x64, 0x17A]"
    using d by simp
  have u1: "str_upper (lit ''DevOps'') = lit ''DEVOPS''"
    by (simp add: str_upper_ascii is_ascii_def lit_def)
  have u2: "str_upper [0x141, 0xF3, 0x64, 0x17A] = [0x141, 0xD3, 0x44, 0x179]"
    using up by (simp add: str_upper_def upper_cp_ascii)
  have l1: "str_lower (lit ''DevOps'') = lit ''devops''"
    by (simp add: str_lower_ascii is_ascii_def lit_def)
  have l2: "str_lower [0x141, 0xF3, 0x64, 0x17A] = [0x142, 0xF3, 0x64, 0x17A]"
    using lo n(2) by (simp add: str_lower_plain lower_cp_ascii)
  have c: "colon = 58" by (simp add: colon_def)
  show ?thesis
    using get_search_id_case_insensitive [of "lit ''DevOps''" "Some [0x141, 0xF3, 0x64, 0x17A]"]
      n f1 f2 u1 u2 l1 l2 c
    by (simp add: lit_def)
qed

text \<open>
  Claim C4 as stated fails three times. It is stated for all strings, but upper-casing
  the one-letter position U+00DF gives \<open>SS\<close>, whose identifier is \<open>ss\<close> and not
  U+00DF. A city that is present but empty is treated like no city: the identifier
  of position \<open>a\<close> with city \<open>""\<close> is \<open>a\<close>, not \<open>a:\<close>. And the identifier
  lower-cases position, colon and city as one string: in \<open>A\<close> U+03A3 with city \<open>B\<close>
  the sigma is followed, past the colon, which these tables count as case-ignorable, by
  a letter and becomes U+03C3, while in the position alone it ends the string and
  becomes U+03C2.
\<close>

theorem get_search_id_counterexample:
  "get_search_id (JobSearch (str_upper [0xDF]) None) \<noteq> get_search_id (JobSearch [0xDF] None)
   \<and> get_search_id (JobSearch (lit ''a'') (Some [])) \<noteq> str_lower (lit ''a'') @ [colon] @ str_lower []
   \<and> get_search_id (JobSearch [0x41, 0x3A3] (Some (lit ''B''))) \<noteq>
       str_lower [0x41, 0x3A3] @ [colon] @ str_lower (lit ''B'')"
proof -
  have u: "str_upper [0xDF] = [0x53, 0x53]"
    by (simp add: str_upper_def case_tables cong: run_lookup_cong)
  have l: "str_lower [0xDF] = [0xDF]"
    by (simp add: str_lower_plain sigma_def case_tables cong: run_lookup_cong)
  have props: "case_ignorable 0x3A" "\<not> case_ignorable 0x41" "\<not> case_ignorable 0x42"
    "cased 0x41" "cased 0x42"
    by (simp_all add: case_ignorable_def cased_def case_ignorable_lookup cased_lookup
        cong: in_ranges_cong)
  have s1: "str_lower [0x41, 0x3A3, 0x3A, 0x42] = [0x61, 0x3C3, 0x3A, 0x62]"
    using props by (simp add: str_lower_def sigma_def final_sigma_def lower_cp_ascii)
  have s2: "str_lower [0x41, 0x3A3] = [0x61, 0x3C2]"
    using props by (simp add: str_lower_def sigma_def final_sigma_def lower_cp_ascii)
  show ?thesis
    using u l s1 s2
    by (simp add: get_search_id_def JobSearch_def str_lower_ascii is_ascii_def lit_def colon_def)
qed

lemma key_split:
  assumes "colon \<notin> set g1" "colon \<notin> set g2" "a @ [colon] @ g1 = b @ [colon] @ g2"
  shows "a = b \<and> g1 = g2"
proof -
  from assms(3) obtain us where
    "(a = b @ us \<and> us @ colon # g1 = colon # g2) \<or> (a @ us = b \<and> colon # g1 = us @ colon # g2)"
    by (auto simp: append_eq_append_conv2)
  then show ?thesis
  proof
    assume h: "a = b @ us \<and> us @ colon # g1 = colon # g2"
    then have "us = []" using assms(2) by (cases us) auto
    then show ?thesis using h by simp
  next
    assume h: "a @ us = b \<and> colon # g1 = us @ colon # g2"
    then have "us = []" using assms(1) by (cases us) auto
    then show ?thesis using h by simp
  qed
qed

text \<open>
  Claim C5, as the code has it. When neither group id contains a colon, equal offer
  keys come from equal search identifiers and equal group ids.
\<close>

theorem offer_id_injective:
  assumes "colon \<notin> set gid1" "colon \<notin> set gid2"
    and "offer_id search1 gid1 = offer_id search2 gid2"
  shows "get_search_id search1 = get_search_id search2 \<and> gid1 = gid2"
  using key_split [OF assms(1,2)] assms(3) by (simp add: offer_id_def)

theorem offer_id_injective_witness:
  "colon \<notin> set (lit ''42'') \<and> offer_id (JobSearch (lit ''DevOps'') None) (lit ''42'') = offer_id (JobSearch (lit ''devops'') None) (lit ''42'')
   \<and> get_search_id (JobSearch (lit ''DevOps'') None) = get_search_id (JobSearch (lit ''devops'') None)"
proof -
  have g: "colon \<notin> set (lit ''42'')" by (simp add: lit_def colon_def)
  have e: "offer_id (JobSearch (lit ''DevOps'') None) (lit ''42'') = offer_id (JobSearch (lit ''devops'') None) (lit ''42'')"
    by (simp add: offer_id_def get_search_id_def JobSearch_def str_lower_ascii is_ascii_def lit_def)
  show ?thesis using offer_id_injective [OF g g e] g e by simp
qed

text \<open>
  Claim C5 as stated fails when a group id contains a colon: the search \<open>a\<close> without
  a city and the group id \<open>b:c\<close> give the same key \<open>a:b:c\<close> as the search \<open>a\<close>
  in city \<open>b\<close> and the group id \<open>c\<close>, although the search identifiers and the group
  ids differ.
\<close>

theorem offer_id_counterexample:
  "offer_id (JobSearch (lit ''a'') None) (lit ''b:c'') = offer_id (JobSearch (lit ''a'') (Some (lit ''b''))) (lit ''c'')
   \<and> get_search_id (JobSearch (lit ''a'') None) \<noteq> get_search_id (JobSearch (lit ''a'') (Some (lit ''b'')))
   \<and> lit ''b:c'' \<noteq> lit ''c''"
  by (simp add: offer_id_def get_search_id_def JobSearch_def str_lower_ascii is_ascii_def lit_def
      colon_def)

section \<open>Restoring the registry\<close>

lemma split_shape:
  "split sep s = takeWhile (\<lambda>c. c \<noteq> sep) s #
     (if sep \<in> set s then split sep (tl (dropWhile (\<lambda>c. c \<noteq> sep) s)) else [])"
  by (induction s) (auto split: list.splits)

lemma split_hd: "\<exists>ws. split sep s = takeWhile (\<lambda>c. c \<noteq> sep) s # ws"
  using split_shape [of sep s] by simp

text \<open>
  What the unpacking computes. From a persisted identifier, the position is everything
  left of the first colon; the city is absent when there is no colon, and otherwise it
  is the text between the first colon and the second one, which is the whole remainder
  only when there is no second colon. Unpacking never fails, and the loop of the
  initialization passes exactly this position and this city to \<open>add_search\<close>.
\<close>

lemma parse_search_str_first_two:
  "parse_search_str s =
     Inr (takeWhile (\<lambda>c. c \<noteq> colon) s,
          if colon \<in> set s
          then Some (takeWhile (\<lambda>c. c \<noteq> colon) (tl (dropWhile (\<lambda>c. c \<noteq> colon) s)))
          else None)
   \<and> add_saved [s] st =
       add_search (takeWhile (\<lambda>c. c \<noteq> colon) s)
         (if colon \<in> set s
          then Some (takeWhile (\<lambda>c. c \<noteq> colon) (tl (dropWhile (\<lambda>c. c \<noteq> colon) s)))
          else None) st"
proof -
  let ?p = "takeWhile (\<lambda>c. c \<noteq> colon) s"
  let ?c = "if colon \<in> set s
            then Some (takeWhile (\<lambda>c. c \<noteq> colon) (tl (dropWhile (\<lambda>c. c \<noteq> colon) s)))
            else None"
  have parse: "parse_search_str s = Inr (?p, ?c)"
  proof (cases "colon \<in> set s")
    case True
    obtain ws where "split colon (tl (dropWhile (\<lambda>c. c \<noteq> colon) s)) =
        takeWhile (\<lambda>c. c \<noteq> colon) (tl (dropWhile (\<lambda>c. c \<noteq> colon) s)) # ws"
      using split_hd by blast
    then show ?thesis
      using True split_shape [of colon s] by (simp add: parse_search_str_def)
  next
    case False
    then show ?thesis
      using split_shape [of colon s] by (simp add: parse_search_str_def)
  qed
  obtain e st1 where a: "add_search ?p ?c st = (e, st1)"
    by (cases "add_search ?p ?c st")
  have "add_saved [s] st = add_search ?p ?c st"
    unfolding add_saved.simps parse sum.case prod.case a by (cases e) simp_all
  then show ?thesis using parse by simp
qed

lemma setup_monitor_saved:
  assumes "redis_client st = Some r" and "reachable r" and "job_searches r \<noteq> []"
  shows "setup_monitor st = add_saved (job_searches r) st"
  using assms by (simp add: setup_monitor_def redis_smembers_def)

text \<open>
  Claim C6, at an identifier with two colons. \<open>add_search\<close> with position \<open>a\<close> and
  city \<open>b:c\<close> persists the identifier \<open>a:b:c\<close>. The initialization of the next run
  unpacks it to position \<open>a\<close> and city \<open>b\<close>: the remainder \<open>b:c\<close> that the claim
  names is cut at its colon, the search that was saved is not in the registry, and a
  search with the identifier \<open>a:b\<close> stands in its place and is persisted beside it.
\<close>

theorem restore_drops_after_second_colon:
  "parse_search_str (lit ''a:b:c'') = Inr (lit ''a'', Some (lit ''b''))
   \<and> (let saved = snd (add_search (lit ''a'') (Some (lit ''b:c'')) fresh_monitor);
           restarted = snd (setup_monitor (fresh_monitor\<lparr>redis_client := redis_client saved\<rparr>))
       in map_option job_searches (redis_client saved) = Some [lit ''a:b:c'']
        \<and> searches saved = [(lit ''a:b:c'', JobSearch (lit ''a'') (Some (lit ''b:c'')))]
        \<and> searches restarted = [(lit ''a:b'', JobSearch (lit ''a'') (Some (lit ''b'')))]
        \<and> map_option job_searches (redis_client restarted) = Some [lit ''a:b:c'', lit ''a:b''])"
proof -
  have p: "parse_search_str (lit ''a:b:c'') = Inr (lit ''a'', Some (lit ''b''))"
    by (simp add: parse_search_str_def lit_def colon_def)
  have i1: "get_search_id (JobSearch (lit ''a'') (Some (lit ''b:c''))) = lit ''a:b:c''"
    and i2: "get_search_id (JobSearch (lit ''a'') (Some (lit ''b''))) = lit ''a:b''"
    by (simp_all add: get_search_id_def JobSearch_def str_lower_ascii is_ascii_def lit_def
        colon_def)
  have ne: "lit ''a:b'' \<noteq> lit ''a:b:c''"
    by (simp add: lit_def)
  have s: "add_search (lit ''a'') (Some (lit ''b:c'')) fresh_monitor =
      (None, \<lparr>redis_client = Some (empty_store\<lparr>job_searches := [lit ''a:b:c'']\<rparr>),
              searches = [(lit ''a:b:c'', JobSearch (lit ''a'') (Some (lit ''b:c'')))],
              trace = []\<rparr>)"
    by (simp add: add_search_def Let_def i1 fresh_monitor_def empty_store_def redis_sadd_def)
  have r: "setup_monitor (fresh_monitor\<lparr>redis_client :=
               Some (empty_store\<lparr>job_searches := [lit ''a:b:c'']\<rparr>)\<rparr>) =
      (None, \<lparr>redis_client = Some (empty_store\<lparr>job_searches := [lit ''a:b:c'', lit ''a:b'']\<rparr>),
              searches = [(lit ''a:b'', JobSearch (lit ''a'') (Some (lit ''b'')))],
              trace = []\<rparr>)"
    using ne
    by (simp add: setup_monitor_def redis_smembers_def p add_search_def Let_def i2
        fresh_monitor_def empty_store_def redis_sadd_def)
  show ?thesis
    using p s r by (simp add: Let_def)
qed


section \<open>Processing one offer\<close>

text \<open>
  When the snapshot of an offer can be built, every field it reads is there, and the
  snapshot is the eight-entry dictionary of the code.
\<close>

lemma build_ok:
  assumes "build_offer_data offer = Inr data"
  shows "\<exists>company title published techs sub subs workplace uri levels.
     companyName offer = Some company \<and> jobTitle offer = Some title \<and> lastPublicated offer = Some published
     \<and> technologies offer = Some techs \<and> offers offer = Some (sub # subs) \<and> displayWorkplace sub = Some workplace
     \<and> offerAbsoluteUri sub = Some uri \<and> positionLevels offer = Some levels
     \<and> data = [(''companyName'', company),
          (''jobTitle'', title),
          (''lastPublicated'', published),
          (''technologies'', join (lit '','') techs),
          (''displayWorkplace'', workplace),
          (''offerAbsoluteUri'', uri),
          (''positionLevels'', join (lit '','') levels),
          (''salaryDisplayText'',
             (case salaryDisplayText offer of None \<Rightarrow> [] | Some s \<Rightarrow> s))]"
proof -
  obtain company where 1: "companyName offer = Some company"
    using assms by (cases "companyName offer") (simp_all add: build_offer_data_def ebind_def getitem_def)
  obtain title where 2: "jobTitle offer = Some title"
    using assms 1 by (cases "jobTitle offer") (simp_all add: build_offer_data_def ebind_def getitem_def)
  obtain published where 3: "lastPublicated offer = Some published"
    using assms 1 2 by (cases "lastPublicated offer") (simp_all add: build_offer_data_def ebind_def getitem_def)
  obtain techs where 4: "technologies offer = Some techs"
    using assms 1 2 3 by (cases "technologies offer") (simp_all add: build_offer_data_def ebind_def getitem_def)
  obtain subs0 where 5: "offers offer = Some subs0"
    using assms 1 2 3 4 by (cases "offers offer") (simp_all add: build_offer_data_def ebind_def getitem_def)
  obtain sub subs where 6: "subs0 = sub # subs"
    using assms 1 2 3 4 5 by (cases subs0) (simp_all add: build_offer_data_def ebind_def getitem_def)
  obtain workplace where 7: "displayWorkplace sub = Some workplace"
    using assms 1 2 3 4 5 6 by (cases "displayWorkplace sub") (simp_all add: build_offer_data_def ebind_def getitem_def)
  obtain uri where 8: "offerAbsoluteUri sub = Some uri"
    using assms 1 2 3 4 5 6 7 by (cases "offerAbsoluteUri sub") (simp_all add: build_offer_data_def ebind_def getitem_def)
  obtain levels where 9: "positionLevels offer = Some levels"
    using assms 1 2 3 4 5 6 7 8 by (cases "positionLevels offer") (simp_all add: build_offer_data_def ebind_def getitem_def)
  show ?thesis
    using assms 1 2 3 4 5 6 7 8 9 by (simp add: build_offer_data_def ebind_def getitem_def)
qed


lemma build_nonempty: "build_offer_data offer = Inr data \<Longrightarrow> data \<noteq> []"
  using build_ok [of offer data] by auto

lemma build_fields:
  assumes "build_offer_data offer = Inr data"
  shows "\<exists>techs levels. technologies offer = Some techs \<and> positionLevels offer = Some levels"
  using build_ok [OF assms] by auto

lemma format_ok:
  assumes "build_offer_data offer = Inr data"
  shows "\<exists>msg. format_message (alert_job data techs levels) search = Inr msg"
  using build_ok [OF assms]
  by (auto simp: format_message_def alert_job_def ebind_def getitem_def)

lemma try_offer_snapshot_fails:
  assumes "build_offer_data offer = Inl e"
  shows "try_offer w offer oid search st = st"
  using assms by (simp add: try_offer_def split: sum.splits)

lemma try_offer_seen:
  assumes "redis_client st = Some r" "reachable r" "hashes r (offer_key oid) = Some h"
  shows "try_offer w offer oid search st = st"
  using assms by (simp add: try_offer_def is_new_def redis_exists_def ebind_def)

lemma try_offer_new:
  assumes "redis_client st = Some r" "reachable r" "hashes r (offer_key oid) = None"
    and "build_offer_data offer = Inr data"
  shows "\<exists>msg. try_offer w offer oid search st =
           st\<lparr>redis_client := Some (r\<lparr>hashes := (hashes r)(offer_key oid \<mapsto> map_of data)\<rparr>),
              trace := trace st @ [Hmset (offer_key oid) data,
                         SendMessage msg (deliver w (trace st @ [Hmset (offer_key oid) data]) msg)]\<rparr>"
proof -
  obtain techs levels where f: "technologies offer = Some techs" "positionLevels offer = Some levels"
    using build_fields [OF assms(4)] by blast
  obtain msg where m: "format_message (alert_job data techs levels) search = Inr msg"
    using format_ok [OF assms(4)] by blast
  have ne: "data \<noteq> []" using build_nonempty [OF assms(4)] .
  show ?thesis
    using assms f m ne
    by (intro exI [of _ msg])
       (simp add: try_offer_def is_new_def redis_exists_def ebind_def record_offer_def
          redis_hmset_def getitem_def send_telegram_alert_def)
qed

lemma try_offer_degraded:
  assumes "redis_client st = None" and "build_offer_data offer = Inr data"
  shows "\<exists>msg. try_offer w offer oid search st =
           st\<lparr>trace := trace st @ [SendMessage msg (deliver w (trace st) msg)]\<rparr>"
proof -
  obtain techs levels where f: "technologies offer = Some techs" "positionLevels offer = Some levels"
    using build_fields [OF assms(2)] by blast
  obtain msg where m: "format_message (alert_job data techs levels) search = Inr msg"
    using format_ok [OF assms(2)] by blast
  show ?thesis
    using assms f m
    by (intro exI [of _ msg])
       (simp add: try_offer_def is_new_def ebind_def record_offer_def getitem_def
          send_telegram_alert_def)
qed


lemma missing_field_raises:
  assumes "companyName offer = None \<or> jobTitle offer = None \<or> lastPublicated offer = None
         \<or> technologies offer = None \<or> offers offer = None \<or> offers offer = Some []
         \<or> positionLevels offer = None"
  shows "\<exists>e. build_offer_data offer = Inl e"
proof (cases "build_offer_data offer")
  case (Inl e)
  then show ?thesis by blast
next
  case (Inr data)
  then show ?thesis using build_ok [OF Inr] assms by auto
qed

subsection \<open>The store only grows\<close>

lemma recorded_trace [simp]: "recorded (st\<lparr>trace := tr\<rparr>) key = recorded st key"
  by (simp add: recorded_def)

lemma recorded_record_offer:
  assumes "recorded st key" "record_offer st oid data = Inr st1"
  shows "recorded st1 key"
  using assms
  by (auto simp: recorded_def record_offer_def redis_hmset_def ebind_def
      split: option.splits if_splits)

lemma recorded_send: "recorded (send_telegram_alert w job search st) key = recorded st key"
  by (simp add: send_telegram_alert_def split: sum.splits)

lemma recorded_try_offer:
  assumes "recorded st key"
  shows "recorded (try_offer w offer oid search st) key"
  using assms recorded_record_offer [of st key oid]
  by (auto simp: try_offer_def recorded_send split: sum.splits)

lemma recorded_process_offers:
  "recorded st key \<Longrightarrow> recorded (snd (process_offers w grouped search st)) key"
proof (induction grouped arbitrary: st)
  case Nil
  then show ?case by simp
next
  case (Cons offer rest)
  show ?case
  proof (cases "groupId offer")
    case None
    then show ?thesis using Cons.prems by (simp add: getitem_def)
  next
    case (Some gid)
    then show ?thesis
      using Cons.IH [OF recorded_try_offer [OF Cons.prems]] by (simp add: getitem_def)
  qed
qed

lemma recorded_get_job_offers:
  "recorded st key \<Longrightarrow> recorded (snd (get_job_offers w search st)) key"
  by (simp add: get_job_offers_def Let_def split: fetch_result.splits)

lemma recorded_run_searches:
  "recorded st key \<Longrightarrow> recorded (snd (run_searches w ss st)) key"
proof (induction ss arbitrary: st)
  case Nil
  then show ?case by simp
next
  case (Cons search rest)
  obtain grouped st1 where g: "get_job_offers w search st = (grouped, st1)"
    by (cases "get_job_offers w search st")
  have r1: "recorded st1 key"
    using recorded_get_job_offers [OF Cons.prems, of w search] g by simp
  show ?case
  proof (cases grouped)
    case (OfferList os)
    show ?thesis
    proof (cases "os = []")
      case True
      then show ?thesis using g OfferList Cons.IH [OF r1] by simp
    next
      case False
      obtain e st2 where p: "process_offers w os search st1 = (e, st2)"
        by (cases "process_offers w os search st1")
      have r2: "recorded st2 key"
        using recorded_process_offers [OF r1, of w os search] p by simp
      show ?thesis
        using g OfferList False p r2 Cons.IH [OF r2] by (cases e) simp_all
    qed
  next
    case FalsyValue
    then show ?thesis using g Cons.IH [OF r1] by simp
  next
    case (BrokenList os)
    obtain e st2 where p: "process_offers w os search st1 = (e, st2)"
      by (cases "process_offers w os search st1")
    have r2: "recorded st2 key"
      using recorded_process_offers [OF r1, of w os search] p by simp
    show ?thesis
      using g BrokenList p r2 by (cases e) simp_all
  qed
qed

lemma recorded_run_cycle: "recorded st key \<Longrightarrow> recorded (run_cycle w st) key"
  by (simp add: run_cycle_def recorded_run_searches)

lemma recorded_run: "recorded st key \<Longrightarrow> recorded (run w n st) key"
  by (induction n arbitrary: st) (simp_all add: recorded_run_cycle)

lemma process_recorded_noop:
  assumes "recorded st (offer_key (offer_id search gid))" "groupId offer = Some gid"
  shows "process_offers w [offer] search st = (None, st)"
  using assms
  by (auto simp: recorded_def getitem_def try_offer_seen split: option.splits)


lemma example_build: "build_offer_data example_offer = Inr example_data"
  by (simp add: build_offer_data_def example_offer_def example_data_def ebind_def getitem_def
      lit_def)

lemma example_key: "offer_key (offer_id example_search (lit ''42'')) = lit ''offer:devops engineer:wroclaw:42''"
  by (simp add: offer_key_def offer_id_def get_search_id_def example_search_def JobSearch_def
      str_lower_ascii is_ascii_def lit_def colon_def)

section \<open>First sighting and later sightings\<close>

text \<open>
  Claim C1. Take a monitor whose store is available and has no record under the key
  of an offer, the offer having a group id and every field of the snapshot. Processing
  the one-offer list ends normally and adds exactly two calls to the trace: one
  \<open>hmset\<close> under \<open>offer:<offerKey>\<close> with the snapshot, then one message to the
  bot. After any number of further cycles of the loop and any part of the next cycle,
  whatever is fetched and delivered in them, processing an offer with the same key
  (the same group id, a search with the same identifier) changes nothing: no write, no
  message.
\<close>

theorem first_sighting_once:
  assumes "redis_client st = Some r" and "reachable r"
    and "hashes r (offer_key (offer_id search gid)) = None"
    and "groupId offer = Some gid" and "build_offer_data offer = Inr data"
    and "groupId offer' = Some gid" and "get_search_id search' = get_search_id search"
  shows "(let st1 = snd (process_offers w [offer] search st);
              st2 = snd (run_searches w' ss (run w' n st1))
          in fst (process_offers w [offer] search st) = None
           \<and> (\<exists>msg ok. trace st1 =
                 trace st @ [Hmset (offer_key (offer_id search gid)) data, SendMessage msg ok])
           \<and> process_offers w'' [offer'] search' st2 = (None, st2))"
proof -
  let ?key = "offer_key (offer_id search gid)"
  let ?st1 = "snd (process_offers w [offer] search st)"
  let ?st2 = "snd (run_searches w' ss (run w' n ?st1))"
  obtain msg where t: "try_offer w offer (offer_id search gid) search st =
      st\<lparr>redis_client := Some (r\<lparr>hashes := (hashes r)(?key \<mapsto> map_of data)\<rparr>),
         trace := trace st @ [Hmset ?key data,
                    SendMessage msg (deliver w (trace st @ [Hmset ?key data]) msg)]\<rparr>"
    using try_offer_new [OF assms(1,2,3,5)] by blast
  have p: "process_offers w [offer] search st =
      (None, try_offer w offer (offer_id search gid) search st)"
    using assms(4) by (simp add: getitem_def)
  have r1: "recorded ?st1 ?key"
    using p t assms(2) by (simp add: recorded_def)
  have r2: "recorded ?st2 ?key"
    using recorded_run_searches [OF recorded_run [OF r1]] .
  have k: "offer_id search' gid = offer_id search gid"
    using assms(7) by (simp add: offer_id_def)
  have again: "process_offers w'' [offer'] search' ?st2 = (None, ?st2)"
    using process_recorded_noop [of ?st2 search' gid offer' w''] r2 k assms(6) by simp
  have tr: "\<exists>msg ok. trace ?st1 = trace st @ [Hmset ?key data, SendMessage msg ok]"
    using p t by simp
  show ?thesis
    using p tr again by (simp add: Let_def)
qed

text \<open>
  In the scenario the key is \<open>offer:devops engineer:wroclaw:42\<close>; two cycles and a
  further fetch later, the offer found under the upper-case spelling of the search is
  ignored.
\<close>

theorem first_sighting_once_witness:
  "redis_client example_monitor = Some empty_store \<and> reachable empty_store
   \<and> hashes empty_store (offer_key (offer_id example_search (lit ''42''))) = None
   \<and> groupId example_offer = Some (lit ''42'')
   \<and> build_offer_data example_offer = Inr example_data
   \<and> get_search_id (JobSearch (lit ''DEVOPS ENGINEER'') (Some (lit ''WROCLAW''))) = get_search_id example_search
   \<and> (let st1 = snd (process_offers example_world [example_offer] example_search example_monitor);
           st2 = snd (run_searches example_world [example_search] (run example_world 2 st1))
       in fst (process_offers example_world [example_offer] example_search example_monitor) = None
        \<and> (\<exists>msg ok. trace st1 =
              [Hmset (lit ''offer:devops engineer:wroclaw:42'') example_data, SendMessage msg ok])
        \<and> process_offers example_world [example_offer]
             (JobSearch (lit ''DEVOPS ENGINEER'') (Some (lit ''WROCLAW''))) st2 = (None, st2))"
proof -
  have h1: "redis_client example_monitor = Some empty_store"
    by (simp add: example_monitor_def)
  have h2: "reachable empty_store"
    by (simp add: empty_store_def)
  have h3: "hashes empty_store (offer_key (offer_id example_search (lit ''42''))) = None"
    by (simp add: empty_store_def)
  have h4: "groupId example_offer = Some (lit ''42'')"
    by (simp add: example_offer_def)
  have h6: "get_search_id (JobSearch (lit ''DEVOPS ENGINEER'') (Some (lit ''WROCLAW''))) = get_search_id example_search"
    by (simp add: get_search_id_def example_search_def JobSearch_def str_lower_ascii is_ascii_def
        lit_def colon_def)
  have t0: "trace example_monitor = []"
    by (simp add: example_monitor_def)
  show ?thesis
    using first_sighting_once [OF h1 h2 h3 h4 example_build h4 h6,
        of example_world example_world "[example_search]" 2 example_world]
      h1 h2 h3 h4 h6 example_build example_key t0
    by (simp add: Let_def)
qed


text \<open>
  Claim C2. For a new offer and an available store, processing the offer alone ends
  normally in a state whose trace has gained the write first and the message to the
  bot second, and in which the hash is stored. The flag of the \<open>SendMessage\<close> event is
  the bot's answer, false when delivery failed: whatever it is, the stored hash is kept,
  the test for a new offer fails for this key from then on, and a longer list is
  processed by going on with its rest from that state.
\<close>

theorem write_precedes_notification:
  assumes "redis_client st = Some r" and "reachable r"
    and "hashes r (offer_key (offer_id search gid)) = None"
    and "groupId offer = Some gid" and "build_offer_data offer = Inr data"
  shows "\<exists>msg.
           (let key = offer_key (offer_id search gid);
                st1 = st\<lparr>redis_client := Some (r\<lparr>hashes := (hashes r)(key \<mapsto> map_of data)\<rparr>),
                         trace := trace st @
                           [Hmset key data,
                            SendMessage msg (deliver w (trace st @ [Hmset key data]) msg)]\<rparr>
            in process_offers w [offer] search st = (None, st1)
             \<and> process_offers w (offer # rest) search st = process_offers w rest search st1
             \<and> is_new st1 (offer_id search gid) = Inr False)"
proof -
  let ?key = "offer_key (offer_id search gid)"
  obtain msg where t: "try_offer w offer (offer_id search gid) search st =
      st\<lparr>redis_client := Some (r\<lparr>hashes := (hashes r)(?key \<mapsto> map_of data)\<rparr>),
         trace := trace st @ [Hmset ?key data,
                    SendMessage msg (deliver w (trace st @ [Hmset ?key data]) msg)]\<rparr>"
    using try_offer_new [OF assms(1,2,3,5)] by blast
  have p: "process_offers w (offer # rest) search st =
      process_offers w rest search (try_offer w offer (offer_id search gid) search st)"
    using assms(4) by (simp add: getitem_def)
  have q: "process_offers w [offer] search st =
      (None, try_offer w offer (offer_id search gid) search st)"
    using assms(4) by (simp add: getitem_def)
  show ?thesis
    using p q t assms(2)
    by (intro exI [of _ msg]) (simp add: Let_def is_new_def redis_exists_def ebind_def)
qed

text \<open>
  In \<open>example_world\<close> every delivery fails. Two new offers in one list: both are
  written, each before its message, and both records are kept.
\<close>

theorem write_precedes_notification_witness:
  "redis_client example_monitor = Some empty_store \<and> reachable empty_store
   \<and> hashes empty_store (offer_key (offer_id example_search (lit ''42''))) = None
   \<and> groupId example_offer = Some (lit ''42'')
   \<and> build_offer_data example_offer = Inr example_data
   \<and> (\<exists>msg1 msg2.
         process_offers example_world [example_offer, second_offer] example_search
           example_monitor =
         (None,
          example_monitor\<lparr>redis_client :=
              Some (empty_store\<lparr>hashes :=
                [lit ''offer:devops engineer:wroclaw:42'' \<mapsto> map_of example_data,
                 lit ''offer:devops engineer:wroclaw:43'' \<mapsto> map_of example_data]\<rparr>),
            trace :=
              [Hmset (lit ''offer:devops engineer:wroclaw:42'') example_data,
               SendMessage msg1 False,
               Hmset (lit ''offer:devops engineer:wroclaw:43'') example_data,
               SendMessage msg2 False]\<rparr>))"
proof -
  let ?k1 = "lit ''offer:devops engineer:wroclaw:42''"
  let ?k2 = "lit ''offer:devops engineer:wroclaw:43''"
  have h1: "redis_client example_monitor = Some empty_store"
    by (simp add: example_monitor_def)
  have h2: "reachable empty_store"
    by (simp add: empty_store_def)
  have h3: "hashes empty_store (offer_key (offer_id example_search (lit ''42''))) = None"
    by (simp add: empty_store_def)
  have h4: "groupId example_offer = Some (lit ''42'')"
    by (simp add: example_offer_def)
  have t0: "trace example_monitor = []" "hashes empty_store = Map.empty"
    by (simp_all add: example_monitor_def empty_store_def)
  have d: "deliver example_world = (\<lambda>tr text. False)"
    by (simp add: example_world_def)
  obtain msg1 where one: "process_offers example_world [example_offer, second_offer]
        example_search example_monitor =
      process_offers example_world [second_offer] example_search
        (example_monitor\<lparr>redis_client :=
             Some (empty_store\<lparr>hashes := [?k1 \<mapsto> map_of example_data]\<rparr>),
           trace := [Hmset ?k1 example_data, SendMessage msg1 False]\<rparr>)"
    using write_precedes_notification [OF h1 h2 h3 h4 example_build,
        of example_world "[second_offer]"] example_key t0 d
    by (auto simp: Let_def)
  let ?st1 = "example_monitor\<lparr>redis_client :=
                 Some (empty_store\<lparr>hashes := [?k1 \<mapsto> map_of example_data]\<rparr>),
               trace := [Hmset ?k1 example_data, SendMessage msg1 False]\<rparr>"
  let ?r1 = "empty_store\<lparr>hashes := [?k1 \<mapsto> map_of example_data]\<rparr>"
  have g1: "redis_client ?st1 = Some ?r1" by simp
  have g2: "reachable ?r1" using h2 by simp
  have k2: "offer_key (offer_id example_search (lit ''43'')) = ?k2"
    by (simp add: offer_key_def offer_id_def get_search_id_def example_search_def JobSearch_def
        str_lower_ascii is_ascii_def lit_def colon_def)
  have g3: "hashes ?r1 (offer_key (offer_id example_search (lit ''43''))) = None"
    unfolding k2 by (simp add: t0 lit_def)
  have g4: "groupId second_offer = Some (lit ''43'')"
    by (simp add: second_offer_def)
  have g5: "build_offer_data second_offer = Inr example_data"
    using example_build by (simp add: second_offer_def build_offer_data_def)
  obtain msg2 where two: "process_offers example_world [second_offer] example_search ?st1 =
      (None, ?st1\<lparr>redis_client := Some (?r1\<lparr>hashes := (hashes ?r1)(?k2 \<mapsto> map_of example_data)\<rparr>),
               trace := trace ?st1 @ [Hmset ?k2 example_data, SendMessage msg2 False]\<rparr>)"
    using write_precedes_notification [OF g1 g2 g3 g4 g5, of example_world "[]"] k2 d
    by (auto simp: Let_def)
  have "process_offers example_world [example_offer, second_offer] example_search
          example_monitor =
        (None, example_monitor\<lparr>redis_client :=
              Some (empty_store\<lparr>hashes :=
                [?k1 \<mapsto> map_of example_data, ?k2 \<mapsto> map_of example_data]\<rparr>),
            trace := [Hmset ?k1 example_data, SendMessage msg1 False,
                      Hmset ?k2 example_data, SendMessage msg2 False]\<rparr>)"
    unfolding one two by simp
  then show ?thesis
    using h1 h2 h3 h4 example_build by blast
qed

lemma first_sighting_once_aux:
  assumes "redis_client st = Some r" and "reachable r"
    and "hashes r (offer_key (offer_id search gid)) = None"
    and "groupId offer = Some gid" and "build_offer_data offer = Inr data"
  shows "\<exists>msg ok. process_offers w [offer] search st =
           (None, st\<lparr>redis_client := Some (r\<lparr>hashes :=
                        (hashes r)(offer_key (offer_id search gid) \<mapsto> map_of data)\<rparr>),
                     trace := trace st @
                       [Hmset (offer_key (offer_id search gid)) data, SendMessage msg ok]\<rparr>)"
  using try_offer_new [OF assms(1,2,3,5), of w search] assms(4)
  by (auto simp: getitem_def)

section \<open>Failures inside the list\<close>

text \<open>
  Claim C10. When an offer has a group id but its snapshot cannot be built (a missing
  \<open>companyName\<close>, \<open>jobTitle\<close>, \<open>lastPublicated\<close>, \<open>technologies\<close>,
  \<open>positionLevels\<close> or \<open>offers\<close>, or an empty \<open>offers\<close> list; see
  \<open>missing_field_raises\<close>), processing it alone ends normally and leaves the monitor
  as it was: no write, no message. A longer list is processed by going on with its
  rest from the unchanged monitor; in particular a new, well-formed offer that follows
  it is written and announced when the store is available.
\<close>

theorem snapshot_failure_skips_offer:
  assumes "groupId offer = Some gid" and "build_offer_data offer = Inl e"
  shows "process_offers w [offer] search st = (None, st)
       \<and> process_offers w (offer # rest) search st = process_offers w rest search st
       \<and> (\<forall>r gid' data.
            redis_client st = Some r \<and> reachable r
            \<and> hashes r (offer_key (offer_id search gid')) = None
            \<and> groupId next_offer = Some gid' \<and> build_offer_data next_offer = Inr data \<longrightarrow>
            (\<exists>msg ok.
               process_offers w [offer, next_offer] search st =
                 (None,
                  st\<lparr>redis_client :=
                       Some (r\<lparr>hashes := (hashes r)(offer_key (offer_id search gid') \<mapsto> map_of data)\<rparr>),
                     trace := trace st @
                       [Hmset (offer_key (offer_id search gid')) data, SendMessage msg ok]\<rparr>)))"
proof (intro conjI allI impI)
  show "process_offers w [offer] search st = (None, st)"
    using assms by (simp add: getitem_def try_offer_snapshot_fails)
  show skip: "process_offers w (offer # rest) search st = process_offers w rest search st" for rest
    using assms by (simp add: getitem_def try_offer_snapshot_fails)
  fix r gid' data
  assume a: "redis_client st = Some r \<and> reachable r
            \<and> hashes r (offer_key (offer_id search gid')) = None
            \<and> groupId next_offer = Some gid' \<and> build_offer_data next_offer = Inr data"
  then show "\<exists>msg ok.
               process_offers w [offer, next_offer] search st =
                 (None,
                  st\<lparr>redis_client :=
                       Some (r\<lparr>hashes := (hashes r)(offer_key (offer_id search gid') \<mapsto> map_of data)\<rparr>),
                     trace := trace st @
                       [Hmset (offer_key (offer_id search gid')) data, SendMessage msg ok]\<rparr>)"
    using first_sighting_once_aux [of st r search gid' next_offer data w]
    unfolding skip by blast
qed

text \<open>
  In the scenario, the offer without a company name is skipped and the offer after it
  is written and announced.
\<close>

theorem snapshot_failure_skips_offer_witness:
  "groupId (example_offer\<lparr>companyName := None\<rparr>) = Some (lit ''42'')
   \<and> build_offer_data (example_offer\<lparr>companyName := None\<rparr>) = Inl (KeyError ''companyName'')
   \<and> process_offers example_world [example_offer\<lparr>companyName := None\<rparr>] example_search
        example_monitor = (None, example_monitor)
   \<and> (\<exists>msg ok.
        process_offers example_world [example_offer\<lparr>companyName := None\<rparr>, second_offer]
          example_search example_monitor =
        (None,
         example_monitor\<lparr>redis_client :=
             Some (empty_store\<lparr>hashes :=
               [lit ''offer:devops engineer:wroclaw:43'' \<mapsto> map_of example_data]\<rparr>),
           trace :=
             [Hmset (lit ''offer:devops engineer:wroclaw:43'') example_data,
              SendMessage msg ok]\<rparr>))"
proof -
  have g: "groupId (example_offer\<lparr>companyName := None\<rparr>) = Some (lit ''42'')"
    by (simp add: example_offer_def)
  have b: "build_offer_data (example_offer\<lparr>companyName := None\<rparr>) = Inl (KeyError ''companyName'')"
    by (simp add: build_offer_data_def ebind_def getitem_def)
  have h1: "redis_client example_monitor = Some empty_store"
    by (simp add: example_monitor_def)
  have h2: "reachable empty_store" and h3: "\<And>k. hashes empty_store k = None"
    by (simp_all add: empty_store_def)
  have t0: "trace example_monitor = []" "hashes empty_store = Map.empty"
    by (simp_all add: example_monitor_def empty_store_def)
  have k2: "offer_key (offer_id example_search (lit ''43'')) =
      lit ''offer:devops engineer:wroclaw:43''"
    by (simp add: offer_key_def offer_id_def get_search_id_def example_search_def JobSearch_def
        str_lower_ascii is_ascii_def lit_def colon_def)
  have g4: "groupId second_offer = Some (lit ''43'')"
    by (simp add: second_offer_def)
  have g5: "build_offer_data second_offer = Inr example_data"
    using example_build by (simp add: second_offer_def build_offer_data_def)
  have all: "redis_client example_monitor = Some empty_store \<and> reachable empty_store
      \<and> hashes empty_store (offer_key (offer_id example_search (lit ''43''))) = None
      \<and> groupId second_offer = Some (lit ''43'') \<and> build_offer_data second_offer = Inr example_data"
    using h1 h2 h3 g4 g5 by simp
  from snapshot_failure_skips_offer [OF g b, of example_world example_search example_monitor
      "[]" second_offer]
  have first: "process_offers example_world [example_offer\<lparr>companyName := None\<rparr>]
      example_search example_monitor = (None, example_monitor)"
    and rest: "\<exists>msg ok.
        process_offers example_world [example_offer\<lparr>companyName := None\<rparr>, second_offer]
          example_search example_monitor =
        (None,
         example_monitor\<lparr>redis_client :=
             Some (empty_store\<lparr>hashes := (hashes empty_store)
               (offer_key (offer_id example_search (lit ''43'')) \<mapsto> map_of example_data)\<rparr>),
           trace := trace example_monitor @
             [Hmset (offer_key (offer_id example_search (lit ''43''))) example_data,
              SendMessage msg ok]\<rparr>)"
    using all by blast+
  show ?thesis
    using g b first rest unfolding k2 t0 by simp
qed

section \<open>Failures of the offer source\<close>

text \<open>
  The failures that \<open>get_job_offers\<close> catches. When the fetch for a search fails in
  any of those five ways, the method returns the empty list, the only call that left
  the process is the request itself (no write, no message, the store untouched), and
  the loop over the searches goes on with the searches that follow, from that state.
\<close>

lemma fetch_failure_isolated:
  assumes "fetch w (trace st) search \<in> {RequestFailed, BadStatus, NoNextData, BadJson, MissingPath}"
  shows "get_job_offers w search st = (OfferList [], st\<lparr>trace := trace st @ [Fetch search]\<rparr>)
       \<and> run_searches w (search # rest) st =
           run_searches w rest (st\<lparr>trace := trace st @ [Fetch search]\<rparr>)"
proof -
  have g: "get_job_offers w search st = (OfferList [], st\<lparr>trace := trace st @ [Fetch search]\<rparr>)"
    using assms by (auto simp: get_job_offers_def Let_def)
  then show ?thesis by simp
qed

text \<open>
  In \<open>offline_world\<close> the page of the first search cannot be fetched; the second
  search is fetched in the same pass, and its offer is written and announced.
\<close>

lemma fetch_failure_example:
  "run_searches offline_world [example_search, cloud_search] example_monitor =
     run_searches offline_world [cloud_search]
       (example_monitor\<lparr>trace := [Fetch example_search]\<rparr>)
   \<and> map is_write (trace (snd (run_searches offline_world [cloud_search]
         (example_monitor\<lparr>trace := [Fetch example_search]\<rparr>)))) = [False, False, True, False]"
proof -
  have f: "fetch offline_world (trace example_monitor) example_search
             \<in> {RequestFailed, BadStatus, NoNextData, BadJson, MissingPath}"
    by (simp add: offline_world_def)
  have t0: "trace example_monitor = []"
    by (simp add: example_monitor_def)
  have ne: "cloud_search \<noteq> example_search"
    by (simp add: cloud_search_def example_search_def JobSearch_def lit_def)
  have g: "get_job_offers offline_world cloud_search (example_monitor\<lparr>trace := [Fetch example_search]\<rparr>) =
      (OfferList [example_offer],
       example_monitor\<lparr>trace := [Fetch example_search, Fetch cloud_search]\<rparr>)"
    using ne by (simp add: get_job_offers_def offline_world_def Let_def)
  have r: "redis_client (example_monitor\<lparr>trace := [Fetch example_search, Fetch cloud_search]\<rparr>) = Some empty_store"
    by (simp add: example_monitor_def)
  have h2: "reachable empty_store" and h3: "\<And>k. hashes empty_store k = None"
    by (simp_all add: empty_store_def)
  have h4: "groupId example_offer = Some (lit ''42'')"
    by (simp add: example_offer_def)
  obtain msg ok where pp: "process_offers offline_world [example_offer] cloud_search
       (example_monitor\<lparr>trace := [Fetch example_search, Fetch cloud_search]\<rparr>) =
     (None, example_monitor\<lparr>trace := [Fetch example_search, Fetch cloud_search]\<rparr>
        \<lparr>redis_client := Some (empty_store\<lparr>hashes :=
             (hashes empty_store)(offer_key (offer_id cloud_search (lit ''42'')) \<mapsto> map_of example_data)\<rparr>),
         trace := trace (example_monitor\<lparr>trace := [Fetch example_search, Fetch cloud_search]\<rparr>) @
            [Hmset (offer_key (offer_id cloud_search (lit ''42''))) example_data, SendMessage msg ok]\<rparr>)"
    using first_sighting_once_aux [OF r h2 h3 h4 example_build, of offline_world cloud_search]
    by blast
  have w: "map is_write (trace (snd (run_searches offline_world [cloud_search]
         (example_monitor\<lparr>trace := [Fetch example_search]\<rparr>)))) = [False, False, True, False]"
    unfolding run_searches.simps g prod.case returned.case pp by simp
  show ?thesis
    using fetch_failure_isolated [OF f, of "[cloud_search]"] t0 w
    by simp
qed

text \<open>
  A payload that parses is handed on as it is. An offer without a group id, and an
  element that is not an object, raise at \<open>offer['groupId']\<close>, which stands before
  the \<open>try\<close>: the exception leaves \<open>process_offers\<close> and the loop over the searches,
  and the searches that follow are not visited in this iteration.
\<close>

lemma missing_group_id_ends_pass:
  assumes "fetch w (trace st) search = GroupedOffers (offer # others)"
    and "groupId offer = None"
  shows "run_searches w (search # rest) st =
           (Some (KeyError ''groupId''), st\<lparr>trace := trace st @ [Fetch search]\<rparr>)"
  using assms by (simp add: get_job_offers_def Let_def getitem_def)

lemma non_object_ends_pass:
  assumes "fetch w (trace st) search = GroupedBroken []"
  shows "run_searches w (search # rest) st =
           (Some TypeError, st\<lparr>trace := trace st @ [Fetch search]\<rparr>)"
  using assms by (simp add: get_job_offers_def Let_def)

text \<open>
  Claim C9, at a payload that is malformed and parses. The registry holds
  \<open>example_search\<close> and then \<open>cloud_search\<close>. When the page of the first lists an
  offer without a group id, or holds a value that is not a list of objects, the
  iteration ends with the exception after the first request: the second search is not
  fetched, although its page holds a new offer.
\<close>

theorem malformed_payload_ends_cycle:
  "run_searches unkeyed_world [example_search, cloud_search] example_monitor =
     (Some (KeyError ''groupId''), example_monitor\<lparr>trace := [Fetch example_search]\<rparr>)
   \<and> run_searches shapeless_world [example_search, cloud_search] example_monitor =
     (Some TypeError, example_monitor\<lparr>trace := [Fetch example_search]\<rparr>)
   \<and> run_cycle unkeyed_world
       (example_monitor\<lparr>searches := [(lit ''devops engineer:wroclaw'', example_search),
                                      (lit ''cloud engineer'', cloud_search)]\<rparr>) =
     example_monitor\<lparr>searches := [(lit ''devops engineer:wroclaw'', example_search),
                                  (lit ''cloud engineer'', cloud_search)],
                     trace := [Fetch example_search]\<rparr>
   \<and> fetch unkeyed_world [Fetch example_search] cloud_search = GroupedOffers [example_offer]"
proof -
  have t0: "trace example_monitor = []"
    by (simp add: example_monitor_def)
  have ne: "cloud_search \<noteq> example_search"
    by (simp add: cloud_search_def example_search_def JobSearch_def lit_def)
  have f1: "fetch unkeyed_world tr example_search =
      GroupedOffers (example_offer\<lparr>groupId := None\<rparr> # [])" for tr
    by (simp add: unkeyed_world_def)
  have f2: "fetch shapeless_world tr example_search = GroupedBroken []" for tr
    by (simp add: shapeless_world_def)
  have f3: "fetch unkeyed_world [Fetch example_search] cloud_search = GroupedOffers [example_offer]"
    using ne by (simp add: unkeyed_world_def)
  have a: "run_searches unkeyed_world (example_search # rest) st =
      (Some (KeyError ''groupId''), st\<lparr>trace := trace st @ [Fetch example_search]\<rparr>)" for rest st
    using missing_group_id_ends_pass [OF f1] by simp
  have b: "run_searches shapeless_world (example_search # rest) st =
      (Some TypeError, st\<lparr>trace := trace st @ [Fetch example_search]\<rparr>)" for rest st
    using non_object_ends_pass [OF f2] by simp
  show ?thesis
    using a b f3 t0 by (simp add: run_cycle_def)
qed

section \<open>Without a store client\<close>

lemma degraded_process_one:
  assumes "redis_client st = None" and "groupId offer = Some gid"
    and "build_offer_data offer = Inr data"
  shows "\<exists>msg ok. process_offers w [offer] search st =
           (None, st\<lparr>trace := trace st @ [SendMessage msg ok]\<rparr>)"
proof -
  obtain msg where "try_offer w offer (offer_id search gid) search st =
      st\<lparr>trace := trace st @ [SendMessage msg (deliver w (trace st) msg)]\<rparr>"
    using try_offer_degraded [OF assms(1,3)] by blast
  then show ?thesis
    using assms(2)
    by (intro exI [of _ msg] exI [of _ "deliver w (trace st) msg"]) (simp add: getitem_def)
qed

lemma degraded_cycle:
  assumes "redis_client st = None" and "searches st = [(k, search)]"
    and "fetch w (trace st) search = GroupedOffers [offer]"
    and "groupId offer = Some gid" and "build_offer_data offer = Inr data"
  shows "\<exists>msg ok. run_cycle w st =
           st\<lparr>trace := trace st @ [Fetch search, SendMessage msg ok]\<rparr>"
proof -
  let ?st1 = "st\<lparr>trace := trace st @ [Fetch search]\<rparr>"
  have g: "get_job_offers w search st = (OfferList [offer], ?st1)"
    using assms(3) by (simp add: get_job_offers_def Let_def)
  have "redis_client ?st1 = None" using assms(1) by simp
  then obtain msg ok where p: "process_offers w [offer] search ?st1 =
      (None, ?st1\<lparr>trace := trace ?st1 @ [SendMessage msg ok]\<rparr>)"
    using degraded_process_one [OF _ assms(4,5), of ?st1 w search] by blast
  have "run_cycle w st = st\<lparr>trace := trace st @ [Fetch search, SendMessage msg ok]\<rparr>"
    unfolding run_cycle_def assms(2) list.map snd_conv run_searches.simps g prod.case
      returned.case p
    by simp
  then show ?thesis by blast
qed

lemma degraded_run:
  assumes "redis_client st = None" and "searches st = [(k, search)]"
    and "\<And>tr. fetch w tr search = GroupedOffers [offer]"
    and "groupId offer = Some gid" and "build_offer_data offer = Inr data"
  shows "redis_client (run w n st) = None \<and> searches (run w n st) = [(k, search)]
       \<and> length (filter is_notification (trace (run w n st))) =
           length (filter is_notification (trace st)) + n
       \<and> filter is_write (trace (run w n st)) = filter is_write (trace st)"
  using assms(1,2)
proof (induction n arbitrary: st)
  case 0
  then show ?case by simp
next
  case (Suc n)
  obtain msg ok where c: "run_cycle w st =
      st\<lparr>trace := trace st @ [Fetch search, SendMessage msg ok]\<rparr>"
    using degraded_cycle [OF Suc.prems assms(3,4,5)] by blast
  have "redis_client (run_cycle w st) = None" "searches (run_cycle w st) = [(k, search)]"
    using c Suc.prems by simp_all
  from Suc.IH [OF this] show ?case using c by simp
qed

text \<open>
  Claim C3. Without a store client the test for a new offer is true for every key and
  needs no store, and recording is a no-op that returns the monitor as it is. With one
  search in the registry whose fetch returns the same offer every time, each iteration
  of the loop hands one more message to the bot, and no iteration writes anything.
\<close>

theorem degraded_mode_renotifies:
  assumes "redis_client st = None" and "searches st = [(k, search)]"
    and "\<forall>tr. fetch w tr search = GroupedOffers [offer]"
    and "groupId offer = Some gid" and "build_offer_data offer = Inr data"
  shows "is_new st oid = Inr True
       \<and> record_offer st oid data' = Inr st
       \<and> length (filter is_notification (trace (run w n st))) =
           length (filter is_notification (trace st)) + n
       \<and> filter is_write (trace (run w n st)) = filter is_write (trace st)"
proof -
  have f: "\<And>tr. fetch w tr search = GroupedOffers [offer]"
    using assms(3) by simp
  show ?thesis
    using degraded_run [OF assms(1,2) f assms(4,5), of n] assms(1)
    by (simp add: is_new_def record_offer_def)
qed

text \<open>Three iterations in the scenario without a store: three messages, no write.\<close>

theorem degraded_mode_renotifies_witness:
  "redis_client no_store_monitor = None
   \<and> groupId example_offer = Some (lit ''42'')
   \<and> build_offer_data example_offer = Inr example_data
   \<and> is_new no_store_monitor (offer_id example_search (lit ''42'')) = Inr True
   \<and> record_offer no_store_monitor (offer_id example_search (lit ''42'')) example_data =
       Inr no_store_monitor
   \<and> length (filter is_notification (trace (run example_world 3 no_store_monitor))) = 3
   \<and> filter is_write (trace (run example_world 3 no_store_monitor)) = []"
proof -
  have h1: "redis_client no_store_monitor = None"
    and h2: "searches no_store_monitor = [(lit ''devops engineer:wroclaw'', example_search)]"
    and t0: "trace no_store_monitor = []"
    by (simp_all add: no_store_monitor_def)
  have h3: "\<forall>tr. fetch example_world tr example_search = GroupedOffers [example_offer]"
    by (simp add: example_world_def)
  have h4: "groupId example_offer = Some (lit ''42'')"
    by (simp add: example_offer_def)
  show ?thesis
    using degraded_mode_renotifies [OF h1 h2 h3 h4 example_build,
        of "offer_id example_search (lit ''42'')" example_data 3]
      h1 h4 example_build t0
    by simp
qed


section \<open>Adding a search\<close>

lemma map_of_dict_set: "map_of (dict_set kvs key v) key = Some v"
  by (induction kvs key v rule: dict_set.induct) auto

text \<open>
  Claim C7, as the code has it. \<open>JobSearch\<close> validates nothing and no validation
  error exists: for every position, empty or not, and every city, \<open>add_search\<close>
  stores \<open>JobSearch(position, city)\<close> in the registry under its identifier. The only
  exception it can end with is the store's, raised after the registry was updated,
  when a client exists and the server cannot be reached.
\<close>

theorem add_search_accepts_every_position:
  "map_of (searches (snd (add_search p c st))) (get_search_id (JobSearch p c)) = Some (JobSearch p c)
   \<and> fst (add_search p c st) =
       (case redis_client st of
          None \<Rightarrow> None
        | Some r \<Rightarrow> if reachable r then None else Some ConnectionError)"
  by (auto simp: add_search_def Let_def redis_sadd_def map_of_dict_set split: option.splits)

text \<open>
  Claim C7 as stated fails: the empty position, and a position of two blanks, are
  accepted and inserted into the registry.
\<close>

theorem add_search_counterexample:
  "add_search [] None \<lparr>redis_client = None, searches = [], trace = []\<rparr> =
     (None, \<lparr>redis_client = None, searches = [([], JobSearch [] None)], trace = []\<rparr>)
   \<and> add_search (lit ''  '') (Some (lit ''Wroclaw'')) \<lparr>redis_client = None, searches = [], trace = []\<rparr> =
     (None, \<lparr>redis_client = None,
             searches = [(lit ''  :wroclaw'', JobSearch (lit ''  '') (Some (lit ''Wroclaw'')))],
             trace = []\<rparr>)"
  by (simp add: add_search_def Let_def get_search_id_def JobSearch_def str_lower_ascii is_ascii_def
      lit_def colon_def)

section \<open>The salary line\<close>

lemma example_message:
  "format_message (alert_job example_data [lit ''AWS'', lit ''K8s''] [lit ''Senior'']) search =
     Inr (concat
       [[0x1F6A8], lit '' New job offer: SRE!'', nl, nl,
        [0x1F50D], lit '' Search: '', position search,
        (case city search of None \<Rightarrow> [] | Some c \<Rightarrow> if c \<noteq> [] then lit '' in '' @ c else []),
        nl, nl,
        [0x1F3E2], lit '' Company: ACME'', nl,
        [0x1F4CD], lit '' Location: Wroclaw'', nl,
        [0x1F4BC], lit '' Level: Senior'', nl,
        [0x1F527], lit '' Technologies: AWS, K8s'', nl,
        [0x1F4B0], lit '' Salary: '', nl,
        [0x1F517], lit '' Link: https://x/1'', nl, nl,
        [0x1F4C5], lit '' Published: 2024-01-01''])"
  by (simp add: format_message_def alert_job_def example_data_def ebind_def getitem_def lit_def nl_def)


text \<open>
  Claim C8, at an offer that names no salary. \<open>process_offers\<close> stores the empty
  string under \<open>salaryDisplayText\<close> in the dictionary it hands to
  \<open>send_telegram_alert\<close>, so the key is always there and the default
  \<open>Not specified\<close> of \<open>job.get\<close> is never used: the salary line of the message
  that is sent is empty.
\<close>

theorem missing_salary_message:
  "salaryDisplayText example_offer = None
   \<and> fst (process_offers example_world [example_offer] example_search example_monitor) = None
   \<and> trace (snd (process_offers example_world [example_offer] example_search example_monitor)) =
       [Hmset (lit ''offer:devops engineer:wroclaw:42'') example_data,
        SendMessage (concat
          [[0x1F6A8], lit '' New job offer: SRE!'', nl, nl,
           [0x1F50D], lit '' Search: DevOps Engineer in Wroclaw'', nl, nl,
           [0x1F3E2], lit '' Company: ACME'', nl,
           [0x1F4CD], lit '' Location: Wroclaw'', nl,
           [0x1F4BC], lit '' Level: Senior'', nl,
           [0x1F527], lit '' Technologies: AWS, K8s'', nl,
           [0x1F4B0], lit '' Salary: '', nl,
           [0x1F517], lit '' Link: https://x/1'', nl, nl,
           [0x1F4C5], lit '' Published: 2024-01-01'']) False]"
proof -
  have s: "salaryDisplayText example_offer = None" "groupId example_offer = Some (lit ''42'')"
    "technologies example_offer = Some [lit ''AWS'', lit ''K8s'']"
    "positionLevels example_offer = Some [lit ''Senior'']"
    by (simp_all add: example_offer_def)
  have c: "redis_client example_monitor = Some empty_store" "trace example_monitor = []"
    "reachable empty_store" "hashes empty_store = Map.empty"
    by (simp_all add: example_monitor_def empty_store_def)
  have ne: "example_data \<noteq> []"
    by (simp add: example_data_def)
  have m: "format_message (alert_job example_data [lit ''AWS'', lit ''K8s''] [lit ''Senior''])
             example_search =
     Inr (concat
          [[0x1F6A8], lit '' New job offer: SRE!'', nl, nl,
           [0x1F50D], lit '' Search: DevOps Engineer in Wroclaw'', nl, nl,
           [0x1F3E2], lit '' Company: ACME'', nl,
           [0x1F4CD], lit '' Location: Wroclaw'', nl,
           [0x1F4BC], lit '' Level: Senior'', nl,
           [0x1F527], lit '' Technologies: AWS, K8s'', nl,
           [0x1F4B0], lit '' Salary: '', nl,
           [0x1F517], lit '' Link: https://x/1'', nl, nl,
           [0x1F4C5], lit '' Published: 2024-01-01''])"
    using example_message [of example_search]
    by (simp add: example_search_def JobSearch_def lit_def)
  have d: "deliver example_world = (\<lambda>tr text. False)"
    by (simp add: example_world_def)
  have t: "try_offer example_world example_offer (offer_id example_search (lit ''42''))
             example_search example_monitor =
           example_monitor\<lparr>redis_client := Some (empty_store\<lparr>hashes :=
               [lit ''offer:devops engineer:wroclaw:42'' \<mapsto> map_of example_data]\<rparr>),
             trace := [Hmset (lit ''offer:devops engineer:wroclaw:42'') example_data,
               SendMessage (concat
                 [[0x1F6A8], lit '' New job offer: SRE!'', nl, nl,
                  [0x1F50D], lit '' Search: DevOps Engineer in Wroclaw'', nl, nl,
                  [0x1F3E2], lit '' Company: ACME'', nl,
                  [0x1F4CD], lit '' Location: Wroclaw'', nl,
                  [0x1F4BC], lit '' Level: Senior'', nl,
                  [0x1F527], lit '' Technologies: AWS, K8s'', nl,
                  [0x1F4B0], lit '' Salary: '', nl,
                  [0x1F517], lit '' Link: https://x/1'', nl, nl,
                  [0x1F4C5], lit '' Published: 2024-01-01'']) False]\<rparr>"
    unfolding try_offer_def is_new_def record_offer_def redis_exists_def redis_hmset_def
      send_telegram_alert_def example_build example_key
    using s c m d ne by (simp add: ebind_def getitem_def)
  show ?thesis
    using s(1,2) t by (simp add: getitem_def)
qed

end
